theory Spec2Isabelle
  imports Complex_Main
begin

section \<open>Python values and text primitives used by the collectors\<close>

text \<open>
  The collectors are Python 2 programs (\<open>xrange\<close>, \<open>long\<close>, \<open>basestring\<close>, \<open>urllib2\<close>);
  the size limit \<open>5_000_000\<close> that they pass to \<open>readline\<close> is the number 5000000.
  Strings are byte strings, modelled as \<open>string\<close>.  An exception is a value of \<open>exn\<close>;
  a computation that may raise returns \<open>exn + 'a\<close> with \<open>Inl\<close> for the exception.
\<close>

datatype exn =
    IndexError | KeyError | ValueError | TypeError | AttributeError
  | IOError | OSError | OverflowError | URLError | UnboundLocalError

datatype level = ERROR | DEBUG | EXCEPTION

type_synonym log_entry = "level \<times> string"

text \<open>
  The calls a collector makes into the host framework: \<open>publish\<close>, \<open>publish_gauge\<close> and
  \<open>publish_counter\<close>, each with the metric name and the value handed over.  (The literal
  third positional argument \<open>0\<close> that some calls pass is a formatting option of the host and
  is not recorded.)
\<close>

datatype 'v publication =
    Publish string 'v
  | PublishGauge string 'v
  | PublishCounter string 'v

fun metric_name :: "'v publication \<Rightarrow> string" where
  "metric_name (Publish n v) = n"
| "metric_name (PublishGauge n v) = n"
| "metric_name (PublishCounter n v) = n"

record 'v outcome =
  published :: "'v publication list"
  logged :: "log_entry list"
  raised :: "exn option"

definition NL :: char where
  "NL = CHR 0x0A"

definition CR :: char where
  "CR = CHR 0x0D"

definition NUL :: char where
  "NUL = CHR 0x00"

definition is_space :: "char \<Rightarrow> bool" where
  "is_space c = (c \<in> set [CHR '' '', CHR 0x09, CHR 0x0A, CHR 0x0B, CHR 0x0C, CHR 0x0D])"

definition is_digit :: "char \<Rightarrow> bool" where
  "is_digit c = (c \<in> set ''0123456789'')"

definition startswith :: "string \<Rightarrow> string \<Rightarrow> bool" where
  "startswith s p = (take (length p) s = p)"

definition endswith :: "string \<Rightarrow> string \<Rightarrow> bool" where
  "endswith s p = (length p \<le> length s \<and> drop (length s - length p) s = p)"

text \<open>\<open>s.split()\<close>: the maximal runs of non-whitespace characters.\<close>

fun split_ws :: "string \<Rightarrow> string \<Rightarrow> string list" where
  "split_ws cur [] = (if cur = [] then [] else [rev cur])"
| "split_ws cur (c # cs) =
     (if is_space c
      then (if cur = [] then split_ws [] cs else rev cur # split_ws [] cs)
      else split_ws (c # cur) cs)"

definition py_split :: "string \<Rightarrow> string list" where
  "py_split s = split_ws [] s"

text \<open>\<open>s.split(sep)\<close> for a one-character separator: empty fields are kept.\<close>

fun split_on :: "char \<Rightarrow> string \<Rightarrow> string list" where
  "split_on sep [] = [[]]"
| "split_on sep (c # cs) =
     (if c = sep then [] # split_on sep cs
      else (case split_on sep cs of
              [] \<Rightarrow> [[c]]
            | w # ws \<Rightarrow> (c # w) # ws))"

text \<open>\<open>s.strip()\<close>.\<close>

definition py_strip :: "string \<Rightarrow> string" where
  "py_strip s = rev (dropWhile is_space (rev (dropWhile is_space s)))"

text \<open>\<open>s.rstrip()\<close>.\<close>

definition py_rstrip :: "string \<Rightarrow> string" where
  "py_rstrip s = rev (dropWhile is_space (rev s))"

text \<open>
  \<open>f.readline(limit)\<close> on a file whose unread content is \<open>s\<close>: the line up to and
  including its newline, cut at \<open>limit\<close> characters, and the content left unread.
\<close>

definition readline :: "nat \<Rightarrow> string \<Rightarrow> string \<times> string" where
  "readline limit s =
     (let l = takeWhile (\<lambda>c. c \<noteq> NL) s;
          n = (if length l < length s then Suc (length l) else length l);
          k = min limit n
      in (take k s, drop k s))"

text \<open>\<open>f.readlines()\<close>: every remaining line, each with its newline.\<close>

fun readlines_acc :: "string \<Rightarrow> string \<Rightarrow> string list" where
  "readlines_acc cur [] = (if cur = [] then [] else [rev cur])"
| "readlines_acc cur (c # cs) =
     (if c = NL then rev (c # cur) # readlines_acc [] cs
      else readlines_acc (c # cur) cs)"

definition readlines :: "string \<Rightarrow> string list" where
  "readlines s = readlines_acc [] s"

text \<open>
  \<open>long(s)\<close> and \<open>int(s)\<close> in base 10: surrounding whitespace is dropped, then an optional
  sign and at least one digit; \<open>long\<close> also accepts a trailing \<open>L\<close>.  \<open>None\<close> stands for
  the \<open>ValueError\<close> of the interpreter.
\<close>

definition digit_val :: "char \<Rightarrow> int" where
  "digit_val c = int (of_char c) - 48"

definition digits_val :: "string \<Rightarrow> int" where
  "digits_val ds = foldl (\<lambda>a c. 10 * a + digit_val c) 0 ds"

definition parse_digits :: "string \<Rightarrow> int option" where
  "parse_digits ds = (if ds \<noteq> [] \<and> list_all is_digit ds then Some (digits_val ds) else None)"

definition parse_signed :: "string \<Rightarrow> int option" where
  "parse_signed t =
     (case t of
        [] \<Rightarrow> None
      | c # cs \<Rightarrow>
          if c = CHR ''-'' then map_option uminus (parse_digits cs)
          else if c = CHR ''+'' then parse_digits cs
          else parse_digits t)"

definition py_int :: "string \<Rightarrow> int option" where
  "py_int s = parse_signed (py_strip s)"

definition py_long :: "string \<Rightarrow> int option" where
  "py_long s =
     (let t = py_strip s
      in if t \<noteq> [] \<and> last t \<in> set ''lL'' then parse_signed (butlast t) else parse_signed t)"

text \<open>
  A Python \<open>dict\<close> as an association list with distinct keys: assignment replaces the value
  of a key that is present and appends a new key.  The interpreter iterates a \<open>dict\<close> in
  hash order; the model iterates in this list order, and what is proved about a whole
  collection cycle is stated for the set of publications where the order could differ.
\<close>

fun dict_set :: "('k \<times> 'v) list \<Rightarrow> 'k \<Rightarrow> 'v \<Rightarrow> ('k \<times> 'v) list" where
  "dict_set [] k v = [(k, v)]"
| "dict_set ((k', v') # kvs) k v =
     (if k' = k then (k, v) # kvs else (k', v') # dict_set kvs k v)"

section \<open>The file system seen by the collectors\<close>

datatype fs_node =
    Directory "string list"
  | RegularFile bool string

type_synonym filesystem = "string \<Rightarrow> fs_node option"

text \<open>\<open>os.access(path, os.R_OK)\<close>.\<close>

definition os_access_R :: "filesystem \<Rightarrow> string \<Rightarrow> bool" where
  "os_access_R fs path =
     (case fs path of
        None \<Rightarrow> False
      | Some (Directory names) \<Rightarrow> True
      | Some (RegularFile readable content) \<Rightarrow> readable)"

text \<open>\<open>os.path.exists(path)\<close>.\<close>

definition os_path_exists :: "filesystem \<Rightarrow> string \<Rightarrow> bool" where
  "os_path_exists fs path = (fs path \<noteq> None)"

text \<open>\<open>os.path.isdir(path)\<close>.\<close>

definition os_path_isdir :: "filesystem \<Rightarrow> string \<Rightarrow> bool" where
  "os_path_isdir fs path =
     (case fs path of Some (Directory names) \<Rightarrow> True | _ \<Rightarrow> False)"

text \<open>\<open>os.listdir(path)\<close>.\<close>

definition os_listdir :: "filesystem \<Rightarrow> string \<Rightarrow> exn + string list" where
  "os_listdir fs path =
     (case fs path of Some (Directory names) \<Rightarrow> Inr names | _ \<Rightarrow> Inl OSError)"

text \<open>\<open>open(path)\<close> for reading: the content of the file, which the reads then consume.\<close>

definition py_open :: "filesystem \<Rightarrow> string \<Rightarrow> exn + string" where
  "py_open fs path =
     (case fs path of
        Some (RegularFile readable content) \<Rightarrow> if readable then Inr content else Inl IOError
      | _ \<Rightarrow> Inl IOError)"

text \<open>\<open>os.path.join(a, b)\<close> of \<open>posixpath\<close>.\<close>

definition os_path_join :: "string \<Rightarrow> string \<Rightarrow> string" where
  "os_path_join a b =
     (if startswith b ''/'' then b
      else if a = [] \<or> endswith a ''/'' then a @ b
      else a @ ''/'' @ b)"

text \<open>\<open>os.path.basename(path)\<close>: what follows the last slash.\<close>

definition os_path_basename :: "string \<Rightarrow> string" where
  "os_path_basename p = rev (takeWhile (\<lambda>c. c \<noteq> CHR ''/'') (rev p))"

section \<open>IPCollector and UDPCollector\<close>

definition READ_LIMIT :: nat where
  "READ_LIMIT = 5000000"

text \<open>
  The \<open>while True\<close> loop of both \<open>collect\<close> methods: read lines until end of file or until a
  line starts with the prefix; that line is the header and the next one the data.
\<close>

function seek_header :: "string \<Rightarrow> string \<Rightarrow> string \<times> string" where
  "seek_header pre f =
     (if fst (readline READ_LIMIT f) = [] then ([], [])
      else if startswith (fst (readline READ_LIMIT f)) pre
      then (fst (readline READ_LIMIT f), fst (readline READ_LIMIT (snd (readline READ_LIMIT f))))
      else seek_header pre (snd (readline READ_LIMIT f)))"
  by pat_completeness auto
termination
  by (relation "measure (\<lambda>(pre, f). length f)")
     (auto simp: readline_def Let_def READ_LIMIT_def min_def split: if_splits)

declare seek_header.simps [simp del]

text \<open>\<open>for i in xrange(1, len(header)): metrics[header[i]] = data[i]\<close>.\<close>

fun zip_up ::
  "nat list \<Rightarrow> string list \<Rightarrow> string list \<Rightarrow> (string \<times> string) list
     \<Rightarrow> exn + (string \<times> string) list" where
  "zip_up [] header data metrics = Inr metrics"
| "zip_up (i # is) header data metrics =
     (if i < length data
      then zip_up is header data (dict_set metrics (header ! i) (data ! i))
      else Inl IndexError)"

text \<open>
  The first loop of \<open>collect\<close>, over the paths of \<open>PROC\<close>.  \<open>pre\<close> is the line prefix
  (\<open>Ip\<close> or \<open>Udp\<close>) and \<open>msg\<close> the tail of the error message.  The branch
  \<open>if not file\<close> of the source is never taken: a file object is true.
\<close>

fun snmp_gather ::
  "string \<Rightarrow> string \<Rightarrow> filesystem \<Rightarrow> string list \<Rightarrow> (string \<times> string) list
     \<Rightarrow> log_entry list \<Rightarrow> log_entry list \<times> (exn + (string \<times> string) list)" where
  "snmp_gather pre msg fs [] metrics lg = (lg, Inr metrics)"
| "snmp_gather pre msg fs (filepath # rest) metrics lg =
     (if \<not> os_access_R fs filepath
      then snmp_gather pre msg fs rest metrics
             (lg @ [(ERROR, ''Permission to access '' @ filepath @ '' denied'')])
      else
        (case py_open fs filepath of
           Inl e \<Rightarrow> (lg, Inl e)
         | Inr file \<Rightarrow>
             (case seek_header pre file of
                (header, data) \<Rightarrow>
                  if header = [] \<or> data = []
                  then snmp_gather pre msg fs rest metrics (lg @ [(ERROR, filepath @ msg)])
                  else
                    (case zip_up [1 ..< length (py_split header)]
                            (py_split header) (py_split data) metrics of
                       Inl e \<Rightarrow> (lg, Inl e)
                     | Inr metrics' \<Rightarrow> snmp_gather pre msg fs rest metrics' lg))))"

definition IP_PROC :: "string list" where
  "IP_PROC = [''/proc/net/snmp'']"

definition IP_GAUGES :: "string list" where
  "IP_GAUGES = [''Forwarding'', ''DefaultTTL'']"

text \<open>
  The option \<open>allowed_names\<close>.  \<open>get_default_config\<close> sets it to one string of names joined
  by commas, \<open>process_config\<close> replaces \<open>None\<close> by the empty list and leaves every other
  value as it is, and a configuration may give a list of names.  \<open>len\<close> and \<open>in\<close> apply to
  both shapes: on a list \<open>in\<close> is membership, on a string it is the substring test.
\<close>

datatype allowed_names = NameList "string list" | NameString string

fun names_len :: "allowed_names \<Rightarrow> nat" where
  "names_len (NameList names) = length names"
| "names_len (NameString s) = length s"

text \<open>\<open>n in s\<close> for strings: \<open>n\<close> occurs in \<open>s\<close> as a run of consecutive characters.\<close>

fun contains_str :: "string \<Rightarrow> string \<Rightarrow> bool" where
  "contains_str [] n = (n = [])"
| "contains_str (c # cs) n = (startswith (c # cs) n \<or> contains_str cs n)"

fun names_contain :: "allowed_names \<Rightarrow> string \<Rightarrow> bool" where
  "names_contain (NameList names) n = (n \<in> set names)"
| "names_contain (NameString s) n = contains_str s n"

text \<open>The values that \<open>get_default_config\<close> gives the option in the two collectors.\<close>

definition IP_DEFAULT_ALLOWED :: allowed_names where
  "IP_DEFAULT_ALLOWED =
     NameString (''InAddrErrors, InDelivers, InDiscards, '' @
                 ''InHdrErrors, InReceives, InUnknownProtos, OutDiscards, '' @
                 ''OutNoRoutes, OutRequests'')"

definition UDP_DEFAULT_ALLOWED :: allowed_names where
  "UDP_DEFAULT_ALLOWED =
     NameString (''InDatagrams, NoPorts, InErrors, '' @
                 ''OutDatagrams, RcvbufErrors, SndbufErrors'')"

text \<open>
  The second loop of \<open>IPCollector.collect\<close>, over the gathered names with their raw
  text.  \<open>allowed\<close> is the value of the option \<open>allowed_names\<close>.
\<close>

fun ip_publish ::
  "allowed_names \<Rightarrow> (string \<times> string) list \<Rightarrow> int publication list \<times> exn option" where
  "ip_publish allowed [] = ([], None)"
| "ip_publish allowed ((name, raw) # rest) =
     (if names_len allowed > 0 \<and> \<not> names_contain allowed name then ip_publish allowed rest
      else
        (case py_long raw of
           None \<Rightarrow> ([], Some ValueError)
         | Some v \<Rightarrow>
             (case ip_publish allowed rest of
                (evs, r) \<Rightarrow>
                  ((if name \<in> set IP_GAUGES then PublishGauge name v else PublishCounter name v)
                     # evs, r))))"

definition ip_collect :: "allowed_names \<Rightarrow> filesystem \<Rightarrow> int outcome" where
  "ip_collect allowed fs =
     (case snmp_gather ''Ip'' '' has no lines starting with Ip'' fs IP_PROC [] [] of
        (lg, Inl e) \<Rightarrow> \<lparr>published = [], logged = lg, raised = Some e\<rparr>
      | (lg, Inr metrics) \<Rightarrow>
          (case ip_publish allowed metrics of
             (evs, r) \<Rightarrow> \<lparr>published = evs, logged = lg, raised = r\<rparr>))"

text \<open>
  Modelled from the spec: \<open>Collector.derivative(name, raw_value, modulus?)\<close> is supplied
  by the host framework and is not part of the collectors' source.  The spec describes it
  as follows: the counter state maps a metric name to the raw value observed before; for
  consecutive observations \<open>v0\<close> then \<open>v1\<close> the delta is \<open>v1 - v0\<close> when \<open>v1 \<ge> v0\<close> and
  \<open>(modulus - v0) + v1\<close> otherwise.  The modulus used when the caller passes none
  (\<open>default_modulus\<close>) and the delta of a first observation (\<open>first_delta\<close>) are left open
  by the spec and are parameters here.
\<close>

record 'a host =
  default_modulus :: 'a
  first_delta :: 'a

definition derivative ::
  "('a::{ord,plus,minus}) host \<Rightarrow> (string \<rightharpoonup> 'a) \<Rightarrow> string \<Rightarrow> 'a \<Rightarrow> 'a option
     \<Rightarrow> 'a \<times> (string \<rightharpoonup> 'a)" where
  "derivative h st name new modulus =
     (case st name of
        None \<Rightarrow> (first_delta h, st(name \<mapsto> new))
      | Some old \<Rightarrow>
          (if new \<ge> old then new - old
           else ((case modulus of None \<Rightarrow> default_modulus h | Some m \<Rightarrow> m) - old) + new,
           st(name \<mapsto> new)))"

definition UDP_PROC :: "string list" where
  "UDP_PROC = [''/proc/net/snmp'']"

text \<open>
  The second loop of \<open>UDPCollector.collect\<close>: the value published is what \<open>derivative\<close>
  returns for \<open>long(value)\<close>, called without a modulus.
\<close>

fun udp_publish ::
  "int host \<Rightarrow> allowed_names \<Rightarrow> (string \<times> string) list \<Rightarrow> (string \<rightharpoonup> int)
     \<Rightarrow> (int publication list \<times> exn option) \<times> (string \<rightharpoonup> int)" where
  "udp_publish h allowed [] st = (([], None), st)"
| "udp_publish h allowed ((name, raw) # rest) st =
     (if names_len allowed > 0 \<and> \<not> names_contain allowed name
      then udp_publish h allowed rest st
      else
        (case py_long raw of
           None \<Rightarrow> (([], Some ValueError), st)
         | Some v \<Rightarrow>
             (case derivative h st name v None of
                (delta, st') \<Rightarrow>
                  (case udp_publish h allowed rest st' of
                     ((evs, r), st'') \<Rightarrow> ((Publish name delta # evs, r), st'')))))"

definition udp_collect ::
  "int host \<Rightarrow> allowed_names \<Rightarrow> filesystem \<Rightarrow> (string \<rightharpoonup> int)
     \<Rightarrow> int outcome \<times> (string \<rightharpoonup> int)" where
  "udp_collect h allowed fs st =
     (case snmp_gather ''Udp'' '' has no lines with Udp'' fs UDP_PROC [] [] of
        (lg, Inl e) \<Rightarrow> (\<lparr>published = [], logged = lg, raised = Some e\<rparr>, st)
      | (lg, Inr metrics) \<Rightarrow>
          (case udp_publish h allowed metrics st of
             ((evs, r), st') \<Rightarrow> (\<lparr>published = evs, logged = lg, raised = r\<rparr>, st')))"

section \<open>KVMCollector and KSMCollector\<close>

text \<open>
  Python floats are modelled by the real numbers they denote.  The built-in \<open>float(s)\<close> is
  a parameter \<open>pyfloat\<close> of the collectors that call it; \<open>None\<close> is its \<open>ValueError\<close>.
\<close>

definition KVM_PROC :: string where
  "KVM_PROC = ''/sys/kernel/debug/kvm''"

definition KVM_MODULUS :: real where
  "KVM_MODULUS = 4294967295"

text \<open>
  The loop of \<open>KVMCollector.collect\<close> over the directory listing.  The entries of a
  listing are plain names, for which \<open>os.path.abspath\<close> of the joined path changes nothing.
\<close>

fun kvm_publish ::
  "(string \<Rightarrow> real option) \<Rightarrow> real host \<Rightarrow> filesystem \<Rightarrow> string list \<Rightarrow> (string \<rightharpoonup> real)
     \<Rightarrow> (real publication list \<times> exn option) \<times> (string \<rightharpoonup> real)" where
  "kvm_publish pyfloat h fs [] st = (([], None), st)"
| "kvm_publish pyfloat h fs (filename # rest) st =
     (case py_open fs (os_path_join KVM_PROC filename) of
        Inl e \<Rightarrow> (([], Some e), st)
      | Inr fh \<Rightarrow>
          (case pyfloat (fst (readline READ_LIMIT fh)) of
             None \<Rightarrow> (([], Some ValueError), st)
           | Some v \<Rightarrow>
               (case derivative h st filename v (Some KVM_MODULUS) of
                  (delta, st') \<Rightarrow>
                    (case kvm_publish pyfloat h fs rest st' of
                       ((evs, r), st'') \<Rightarrow> ((Publish filename delta # evs, r), st'')))))"

definition kvm_collect ::
  "(string \<Rightarrow> real option) \<Rightarrow> real host \<Rightarrow> filesystem \<Rightarrow> (string \<rightharpoonup> real)
     \<Rightarrow> real outcome \<times> (string \<rightharpoonup> real)" where
  "kvm_collect pyfloat h fs st =
     (if \<not> os_path_isdir fs KVM_PROC
      then (\<lparr>published = [],
             logged = [(ERROR, ''/sys/kernel/debug/kvm is missing. Did you '' @
                               [CHR 0x22] @ ''mount -t debugfs debugfs /sys/kernel/debug'' @
                               [CHR 0x22] @ ''?'')],
             raised = None\<rparr>, st)
      else
        (case os_listdir fs KVM_PROC of
           Inl e \<Rightarrow> (\<lparr>published = [], logged = [], raised = Some e\<rparr>, st)
         | Inr names \<Rightarrow>
             (case kvm_publish pyfloat h fs names st of
                ((evs, r), st') \<Rightarrow> (\<lparr>published = evs, logged = [], raised = r\<rparr>, st'))))"

text \<open>
  \<open>glob.glob(os.path.join(ksm_path, "*"))\<close> for a \<open>ksm_path\<close> without wildcard characters
  or trailing slash: the entries of the directory whose names do not start with a dot,
  each joined to the directory; nothing when the directory cannot be listed.
\<close>

definition glob_star :: "filesystem \<Rightarrow> string \<Rightarrow> string list" where
  "glob_star fs dir =
     (case fs dir of
        Some (Directory names) \<Rightarrow>
          map (os_path_join dir) (filter (\<lambda>n. \<not> startswith n ''.'') names)
      | _ \<Rightarrow> [])"

text \<open>The loop of \<open>KSMCollector.collect\<close>; \<open>except ValueError: pass\<close> is the \<open>None\<close> branch.\<close>

fun ksm_publish ::
  "(string \<Rightarrow> real option) \<Rightarrow> filesystem \<Rightarrow> string list
     \<Rightarrow> real publication list \<times> exn option" where
  "ksm_publish pyfloat fs [] = ([], None)"
| "ksm_publish pyfloat fs (item # rest) =
     (if os_access_R fs item
      then
        (case py_open fs item of
           Inl e \<Rightarrow> ([], Some e)
         | Inr filehandle \<Rightarrow>
             (case pyfloat (py_rstrip (fst (readline READ_LIMIT filehandle))) of
                None \<Rightarrow> ksm_publish pyfloat fs rest
              | Some v \<Rightarrow>
                  (case ksm_publish pyfloat fs rest of
                     (evs, r) \<Rightarrow> (Publish (os_path_basename item) v # evs, r))))
      else ksm_publish pyfloat fs rest)"

definition ksm_collect ::
  "(string \<Rightarrow> real option) \<Rightarrow> string \<Rightarrow> filesystem \<Rightarrow> real outcome" where
  "ksm_collect pyfloat ksm_path fs =
     (case ksm_publish pyfloat fs (glob_star fs ksm_path) of
        (evs, r) \<Rightarrow> \<lparr>published = evs, logged = [], raised = r\<rparr>)"

section \<open>UptimeCollector\<close>

definition UPTIME_PROC :: string where
  "UPTIME_PROC = ''/proc/uptime''"

text \<open>
  Modelled from the spec: \<open>diamond.convertor.time.convert(value, old_unit, new_unit)\<close> is a
  utility of the host framework and is not part of the collectors' source.  The spec
  fixes one case, seconds to minutes, as division by 60; every other pair of units is
  left to the parameter \<open>other\<close>, which may raise.
\<close>

definition time_convert ::
  "(real \<Rightarrow> string \<Rightarrow> string \<Rightarrow> exn + real) \<Rightarrow> real \<Rightarrow> string \<Rightarrow> string \<Rightarrow> exn + real" where
  "time_convert other v old_unit new_unit =
     (if old_unit = ''s'' \<and> new_unit = ''minutes'' then Inr (v / 60)
      else other v old_unit new_unit)"

text \<open>
  \<open>UptimeCollector.read\<close>: every exception of the body is caught, logged and turned into
  \<open>None\<close>.  The message is recorded without the text of the exception.
\<close>

definition uptime_read_body ::
  "(string \<Rightarrow> real option) \<Rightarrow> (real \<Rightarrow> string \<Rightarrow> string \<Rightarrow> exn + real) \<Rightarrow> string \<Rightarrow> filesystem
     \<Rightarrow> exn + real" where
  "uptime_read_body pyfloat other unit fs =
     (case py_open fs UPTIME_PROC of
        Inl e \<Rightarrow> Inl e
      | Inr fd \<Rightarrow>
          (case py_split (fst (readline READ_LIMIT fd)) of
             [] \<Rightarrow> Inl IndexError
           | tok # toks \<Rightarrow>
               (case pyfloat (py_strip tok) of
                  None \<Rightarrow> Inl ValueError
                | Some v \<Rightarrow> time_convert other v ''s'' unit)))"

definition uptime_read ::
  "(string \<Rightarrow> real option) \<Rightarrow> (real \<Rightarrow> string \<Rightarrow> string \<Rightarrow> exn + real) \<Rightarrow> string \<Rightarrow> filesystem
     \<Rightarrow> log_entry list \<times> real option" where
  "uptime_read pyfloat other unit fs =
     (case uptime_read_body pyfloat other unit fs of
        Inl e \<Rightarrow> ([(ERROR, ''Unable to read uptime from '' @ UPTIME_PROC)], None)
      | Inr v \<Rightarrow> ([], Some v))"

text \<open>
  \<open>UptimeCollector.collect\<close>; \<open>metric_name\<close> is the configured option of that name, which
  is both the name published and the target unit.
\<close>

definition uptime_collect ::
  "(string \<Rightarrow> real option) \<Rightarrow> (real \<Rightarrow> string \<Rightarrow> string \<Rightarrow> exn + real) \<Rightarrow> string \<Rightarrow> filesystem
     \<Rightarrow> real outcome" where
  "uptime_collect pyfloat other metric_name_opt fs =
     (if \<not> os_path_exists fs UPTIME_PROC
      then \<lparr>published = [],
            logged = [(ERROR, ''Input path '' @ UPTIME_PROC @ '' does not exist'')],
            raised = None\<rparr>
      else
        (case uptime_read pyfloat other metric_name_opt fs of
           (lg, None) \<Rightarrow> \<lparr>published = [], logged = lg, raised = None\<rparr>
         | (lg, Some v) \<Rightarrow>
             \<lparr>published = [Publish metric_name_opt v], logged = lg, raised = None\<rparr>))"

text \<open>A file system that holds one readable file and nothing else.\<close>

definition single_file :: "string \<Rightarrow> string \<Rightarrow> filesystem" where
  "single_file path content =
     (\<lambda>p. if p = path then Some (RegularFile True content) else None)"

text \<open>A file system given by a table of paths and nodes.\<close>

definition fs_of :: "(string \<times> fs_node) list \<Rightarrow> filesystem" where
  "fs_of table = map_of table"

text \<open>A stand-in for the built-in \<open>float\<close> that reads integer literals only.\<close>

definition float_of_int_literal :: "string \<Rightarrow> real option" where
  "float_of_int_literal s = map_option real_of_int (py_int s)"


section \<open>MemcachedCollector\<close>

datatype pyval = IntV int | FloatV real | StrV string

datatype family = AF_UNIX | AF_INET

text \<open>The calls made on the socket module and on the socket, in the order they are made.\<close>

datatype sock_op =
    SocketCreate family
  | Connect string "int option"
  | SetTimeout nat
  | Send string
  | Recv nat
  | Close

text \<open>
  What the other end does: whether creating the socket, connecting and sending raise
  \<open>socket.error\<close>, and what each \<open>recv\<close> returns in turn.  An empty chunk is the peer
  closing the connection, and so is the end of the script.
\<close>

datatype recv_event = Received string | RecvError

record peer =
  create_fails :: bool
  connect_fails :: bool
  send_fails :: bool
  recv_script :: "recv_event list"

type_synonym network = "string \<Rightarrow> string option \<Rightarrow> peer"

record raw_stats =
  raw_data :: string
  raw_trace :: "sock_op list"
  raw_logged :: "log_entry list"
  raw_raised :: "exn option"

text \<open>
  The \<open>while True\<close> loop of \<open>get_raw_stats\<close>: the data accumulated, the calls made, and
  whether a \<open>recv\<close> raised \<open>socket.error\<close>.
\<close>

fun recv_loop :: "recv_event list \<Rightarrow> string \<Rightarrow> string \<times> sock_op list \<times> bool" where
  "recv_loop [] data = (data, [Recv 4096], False)"
| "recv_loop (RecvError # es) data = (data, [Recv 4096], True)"
| "recv_loop (Received received # es) data =
     (if received = [] then (data, [Recv 4096], False)
      else if endswith (data @ received) (''END'' @ [CR, NL])
      then (data @ received, [Recv 4096], False)
      else (case recv_loop es (data @ received) of
              (d, t, failed) \<Rightarrow> (d, Recv 4096 # t, failed)))"

text \<open>What follows a successful \<open>connect\<close>: \<open>settimeout(3)\<close>, the request, the reads.\<close>

definition exchange :: "peer \<Rightarrow> log_entry list \<Rightarrow> sock_op list \<Rightarrow> raw_stats" where
  "exchange p failure opened =
     (if send_fails p
      then \<lparr>raw_data = [], raw_trace = opened @ [SetTimeout 3, Send (''stats'' @ [NL]), Close],
            raw_logged = failure, raw_raised = None\<rparr>
      else
        (case recv_loop (recv_script p) [] of
           (d, t, failed) \<Rightarrow>
             \<lparr>raw_data = d,
              raw_trace = opened @ [SetTimeout 3, Send (''stats'' @ [NL])] @ t @ [Close],
              raw_logged = (if failed then failure else []), raw_raised = None\<rparr>))"

text \<open>
  \<open>get_raw_stats(host, port)\<close>.  Only \<open>socket.error\<close> is caught.  When creating the socket
  raises it, \<open>sock\<close> is unbound at \<open>sock.close()\<close>; \<open>int(port)\<close> may raise \<open>ValueError\<close> and a
  port outside 0..65535 makes \<open>connect\<close> raise \<open>OverflowError\<close>.
\<close>

definition get_raw_stats :: "network \<Rightarrow> string \<Rightarrow> string option \<Rightarrow> raw_stats" where
  "get_raw_stats net host port =
     (let p = net host port;
          failure = [(EXCEPTION, ''Failed to get stats from '' @ host @ '':'' @
                        (case port of None \<Rightarrow> ''None'' | Some q \<Rightarrow> q))]
      in
        (case port of
           None \<Rightarrow>
             if create_fails p
             then \<lparr>raw_data = [], raw_trace = [SocketCreate AF_UNIX],
                   raw_logged = failure, raw_raised = Some UnboundLocalError\<rparr>
             else if connect_fails p
             then \<lparr>raw_data = [], raw_trace = [SocketCreate AF_UNIX, Connect host None, Close],
                   raw_logged = failure, raw_raised = None\<rparr>
             else exchange p failure [SocketCreate AF_UNIX, Connect host None]
         | Some q \<Rightarrow>
             if create_fails p
             then \<lparr>raw_data = [], raw_trace = [SocketCreate AF_INET],
                   raw_logged = failure, raw_raised = Some UnboundLocalError\<rparr>
             else
               (case py_int q of
                  None \<Rightarrow>
                    \<lparr>raw_data = [], raw_trace = [SocketCreate AF_INET],
                     raw_logged = [], raw_raised = Some ValueError\<rparr>
                | Some pn \<Rightarrow>
                    if pn < 0 \<or> 65535 < pn
                    then \<lparr>raw_data = [],
                          raw_trace = [SocketCreate AF_INET, Connect host (Some pn)],
                          raw_logged = [], raw_raised = Some OverflowError\<rparr>
                    else if connect_fails p
                    then \<lparr>raw_data = [],
                          raw_trace = [SocketCreate AF_INET, Connect host (Some pn), Close],
                          raw_logged = failure, raw_raised = None\<rparr>
                    else exchange p failure [SocketCreate AF_INET, Connect host (Some pn)])))"

text \<open>\<open>data.splitlines()\<close> of a byte string: lines end at \<open>\n\<close>, \<open>\r\n\<close> or \<open>\r\<close>.\<close>

fun splitlines_acc :: "string \<Rightarrow> string \<Rightarrow> string list" where
  "splitlines_acc cur [] = (if cur = [] then [] else [rev cur])"
| "splitlines_acc cur [c] = (if c = NL \<or> c = CR then [rev cur] else [rev (c # cur)])"
| "splitlines_acc cur (c # d # cs) =
     (if c = CR \<and> d = NL then rev cur # splitlines_acc [] cs
      else if c = NL \<or> c = CR then rev cur # splitlines_acc [] (d # cs)
      else splitlines_acc (c # cur) (d # cs))"

definition py_splitlines :: "string \<Rightarrow> string list" where
  "py_splitlines s = splitlines_acc [] s"

definition MEMCACHED_GAUGES :: "string list" where
  "MEMCACHED_GAUGES =
     [''bytes'', ''connection_structures'', ''curr_connections'', ''curr_items'', ''threads'',
      ''reserved_fds'', ''limit_maxbytes'', ''hash_power_level'', ''hash_bytes'',
      ''hash_is_expanding'', ''uptime'']"

definition ignored :: "string list" where
  "ignored =
     [''libevent'', ''pointer_size'', ''time'', ''version'', ''repcached_version'',
      ''replication'', ''accepting_conns'', ''pid'']"

text \<open>
  The parsing loop of \<open>get_stats\<close>, with the two variables it assigns: \<open>pid\<close> and \<open>stats\<close>.
  The branches are in the order of the source: the test against \<open>ignored\<close> comes before
  the test for \<open>pid\<close>.
\<close>

fun parse_stats ::
  "(string \<Rightarrow> real option) \<Rightarrow> string list \<Rightarrow> string option \<Rightarrow> (string \<times> pyval) list
     \<Rightarrow> exn + (string option \<times> (string \<times> pyval) list)" where
  "parse_stats pyfloat [] pid stats = Inr (pid, stats)"
| "parse_stats pyfloat (line # rest) pid stats =
     (case split_on (CHR '' '') line of
        [] \<Rightarrow> Inl IndexError
      | p0 # ps \<Rightarrow>
          if p0 \<noteq> ''STAT'' then parse_stats pyfloat rest pid stats
          else
            (case ps of
               [] \<Rightarrow> Inl IndexError
             | p1 # ps' \<Rightarrow>
                 if p1 \<in> set ignored then parse_stats pyfloat rest pid stats
                 else if p1 = ''pid''
                 then (case ps' of
                         [] \<Rightarrow> Inl IndexError
                       | p2 # ps'' \<Rightarrow> parse_stats pyfloat rest (Some p2) stats)
                 else
                   (case ps' of
                      [] \<Rightarrow> Inl IndexError
                    | p2 # ps'' \<Rightarrow>
                        if CHR ''.'' \<in> set p2
                        then (case pyfloat p2 of
                                None \<Rightarrow> Inl ValueError
                              | Some x \<Rightarrow>
                                  parse_stats pyfloat rest pid (dict_set stats p1 (FloatV x)))
                        else (case py_int p2 of
                                None \<Rightarrow> Inl ValueError
                              | Some i \<Rightarrow>
                                  parse_stats pyfloat rest pid (dict_set stats p1 (IntV i))))))"

text \<open>
  \<open>re.search("-c\x00(\d+)", s)\<close>: group 1 of the leftmost match, the longest run of digits
  after the first \<open>-c\<close>, NUL that is followed by a digit.
\<close>

fun search_maxconn :: "string \<Rightarrow> string option" where
  "search_maxconn [] = None"
| "search_maxconn (c # cs) =
     (if startswith (c # cs) [CHR ''-'', CHR ''c'', NUL]
         \<and> takeWhile is_digit (drop 3 (c # cs)) \<noteq> []
      then Some (takeWhile is_digit (drop 3 (c # cs)))
      else search_maxconn cs)"

definition pid_text :: "string option \<Rightarrow> string" where
  "pid_text pid = (case pid of None \<Rightarrow> ''None'' | Some p \<Rightarrow> p)"

text \<open>The \<open>try\<close> block of \<open>get_stats\<close>; its bare \<open>except\<close> catches whatever the body raises.\<close>

definition read_maxconn ::
  "filesystem \<Rightarrow> string option \<Rightarrow> (string \<times> pyval) list
     \<Rightarrow> (string \<times> pyval) list \<times> log_entry list" where
  "read_maxconn fs pid stats =
     (case py_open fs (''/proc/'' @ pid_text pid @ ''/cmdline'') of
        Inl e \<Rightarrow> (stats, [(DEBUG, ''Cannot parse command line options for memcached'')])
      | Inr f \<Rightarrow>
          (case search_maxconn (fst (readline READ_LIMIT f)) of
             None \<Rightarrow> (stats, [])
           | Some n \<Rightarrow>
               (dict_set stats ''limit_maxconn'' (StrV n),
                [(DEBUG, ''limit connections '' @ n)])))"

definition get_stats ::
  "(string \<Rightarrow> real option) \<Rightarrow> network \<Rightarrow> filesystem \<Rightarrow> string \<Rightarrow> string option
     \<Rightarrow> log_entry list \<times> (exn + (string \<times> pyval) list)" where
  "get_stats pyfloat net fs host port =
     (let raw = get_raw_stats net host port
      in case raw_raised raw of
           Some e \<Rightarrow> (raw_logged raw, Inl e)
         | None \<Rightarrow>
             (case parse_stats pyfloat (py_splitlines (raw_data raw)) None [] of
                Inl e \<Rightarrow> (raw_logged raw, Inl e)
              | Inr (pid, stats) \<Rightarrow>
                  (case read_maxconn fs pid stats of
                     (stats', lg) \<Rightarrow>
                       (raw_logged raw @ [(DEBUG, ''pid '' @ pid_text pid)] @ lg,
                        Inr stats'))))"

text \<open>
  \<open>re.search('((.+)\@)?([^:]+)(:(\d+))?', host)\<close>, giving groups 2, 3 and 5.
  \<open>port_part\<close> is the optional last group on what follows the host name; \<open>host_part\<close>
  is \<open>([^:]+)(:(\d+))?\<close> at the start of a string; \<open>alias_splits\<close> lists, longest first,
  the positions of an \<open>@\<close> at which the greedy \<open>(.+)\<close> (which does not cross a newline) can
  stop with the rest still matching; \<open>host_match\<close> is a match at the start of the string
  and \<open>host_search\<close> the leftmost match.
\<close>

definition port_part :: "string \<Rightarrow> string option" where
  "port_part s =
     (case s of
        [] \<Rightarrow> None
      | c # cs \<Rightarrow>
          if c = CHR '':'' \<and> takeWhile is_digit cs \<noteq> [] then Some (takeWhile is_digit cs)
          else None)"

definition host_part :: "string \<Rightarrow> (string \<times> string option) option" where
  "host_part s =
     (let h = takeWhile (\<lambda>c. c \<noteq> CHR '':'') s
      in if h = [] then None else Some (h, port_part (dropWhile (\<lambda>c. c \<noteq> CHR '':'') s)))"

definition alias_splits :: "string \<Rightarrow> nat list" where
  "alias_splits s =
     filter (\<lambda>k. s ! k = CHR ''@'' \<and> NL \<notin> set (take k s) \<and> host_part (drop (Suc k) s) \<noteq> None)
       (rev [1 ..< length s])"

definition host_match :: "string \<Rightarrow> (string option \<times> string \<times> string option) option" where
  "host_match s =
     (case alias_splits s of
        k # ks \<Rightarrow>
          (case host_part (drop (Suc k) s) of
             Some (h, p) \<Rightarrow> Some (Some (take k s), h, p)
           | None \<Rightarrow> None)
      | [] \<Rightarrow>
          (case host_part s of
             Some (h, p) \<Rightarrow> Some (None, h, p)
           | None \<Rightarrow> None))"

fun host_search :: "string \<Rightarrow> (string option \<times> string \<times> string option) option" where
  "host_search [] = None"
| "host_search (c # cs) =
     (case host_match (c # cs) of
        Some m \<Rightarrow> Some m
      | None \<Rightarrow> host_search cs)"

text \<open>The option \<open>hosts\<close> is a single string or a list; \<open>publish\<close> may be unset.\<close>

datatype hosts_option = HostString string | HostList "string list"

record memcached_config =
  hosts :: hosts_option
  publish :: "string list option"

text \<open>The loop \<open>for stat in desired\<close>.\<close>

fun publish_stats ::
  "string \<Rightarrow> (string \<times> pyval) list \<Rightarrow> string list
     \<Rightarrow> pyval publication list \<times> log_entry list" where
  "publish_stats alias stats [] = ([], [])"
| "publish_stats alias stats (stat # rest) =
     (case publish_stats alias stats rest of
        (evs, lg) \<Rightarrow>
          (case map_of stats stat of
             Some v \<Rightarrow>
               ((if stat \<in> set MEMCACHED_GAUGES then PublishGauge (alias @ ''.'' @ stat) v
                 else PublishCounter (alias @ ''.'' @ stat) v) # evs, lg)
           | None \<Rightarrow>
               (evs,
                (ERROR, ''No such key '' @ [CHR 0x27] @ stat @ [CHR 0x27] @ '' available, issue ''
                          @ [CHR 0x27] @ ''stats'' @ [CHR 0x27] @ '' for a full list'') # lg)))"

text \<open>The loop \<open>for host in hosts\<close> of \<open>MemcachedCollector.collect\<close>.\<close>

fun collect_hosts ::
  "(string \<Rightarrow> real option) \<Rightarrow> string list option \<Rightarrow> network \<Rightarrow> filesystem \<Rightarrow> string list
     \<Rightarrow> pyval outcome" where
  "collect_hosts pyfloat desired_opt net fs [] =
     \<lparr>published = [], logged = [], raised = None\<rparr>"
| "collect_hosts pyfloat desired_opt net fs (host # rest) =
     (case host_search host of
        None \<Rightarrow> \<lparr>published = [], logged = [], raised = Some AttributeError\<rparr>
      | Some (alias, hostname, port) \<Rightarrow>
          (case get_stats pyfloat net fs hostname port of
             (lg, Inl e) \<Rightarrow> \<lparr>published = [], logged = lg, raised = Some e\<rparr>
           | (lg, Inr stats) \<Rightarrow>
               (case publish_stats (case alias of None \<Rightarrow> hostname | Some a \<Rightarrow> a) stats
                       (case desired_opt of None \<Rightarrow> map fst stats | Some d \<Rightarrow> d) of
                  (evs, lg') \<Rightarrow>
                    \<lparr>published = evs @ published (collect_hosts pyfloat desired_opt net fs rest),
                     logged = lg @ lg' @ logged (collect_hosts pyfloat desired_opt net fs rest),
                     raised = raised (collect_hosts pyfloat desired_opt net fs rest)\<rparr>)))"

definition memcached_collect ::
  "(string \<Rightarrow> real option) \<Rightarrow> memcached_config \<Rightarrow> network \<Rightarrow> filesystem \<Rightarrow> pyval outcome" where
  "memcached_collect pyfloat cfg net fs =
     collect_hosts pyfloat (publish cfg) net fs
       (case hosts cfg of HostString h \<Rightarrow> [h] | HostList hs \<Rightarrow> hs)"

text \<open>
  Whether, in a sequence of socket calls, every call selected by \<open>P\<close> comes after a
  \<open>settimeout\<close>; \<open>armed\<close> says whether a timeout is already set at the start.
\<close>

fun is_settimeout :: "sock_op \<Rightarrow> bool" where
  "is_settimeout (SetTimeout t) = True"
| "is_settimeout _ = False"

fun is_connect :: "sock_op \<Rightarrow> bool" where
  "is_connect (Connect h p) = True"
| "is_connect _ = False"

fun is_transfer :: "sock_op \<Rightarrow> bool" where
  "is_transfer (Send d) = True"
| "is_transfer (Recv n) = True"
| "is_transfer _ = False"

fun timeout_set_before :: "(sock_op \<Rightarrow> bool) \<Rightarrow> bool \<Rightarrow> sock_op list \<Rightarrow> bool" where
  "timeout_set_before P armed [] = True"
| "timeout_set_before P armed (x # xs) =
     ((P x \<longrightarrow> armed) \<and> timeout_set_before P (armed \<or> is_settimeout x) xs)"

text \<open>A peer that accepts the connection and answers the request with the given chunks.\<close>

definition answering :: "string list \<Rightarrow> peer" where
  "answering chunks =
     \<lparr>create_fails = False, connect_fails = False, send_fails = False,
      recv_script = map Received chunks\<rparr>"

section \<open>MesosCGroupCollector\<close>

text \<open>
  A decoded JSON document.  An object is a \<open>dict\<close>, looked up by key.  Strings are not
  distinguished from \<open>unicode\<close> strings, and a number is an integer: the collector never
  computes with a number of the document.
\<close>

datatype json =
    JNull
  | JBool bool
  | JNum int
  | JStr string
  | JArr "json list"
  | JObj "(string \<times> json) list"

text \<open>
  What \<open>json.load(urllib2.urlopen(url))\<close> does: \<open>urlopen\<close> raises \<open>HTTPError\<close>, or fails in
  another way (a \<open>URLError\<close> that is not an \<open>HTTPError\<close>), or the body does not decode
  (\<open>ValueError\<close>), or the document is returned.  The strings are the texts of the errors.
\<close>

datatype fetched =
    HTTPError string
  | OtherURLError
  | NotJSON string
  | Decoded json

record mesos_config =
  mesos_host :: string
  mesos_port :: string
  mesos_state_path :: string

definition state_url :: "mesos_config \<Rightarrow> string" where
  "state_url cfg =
     ''http://'' @ mesos_host cfg @ '':'' @ mesos_port cfg @ ''/'' @ mesos_state_path cfg"

text \<open>\<open>get_mesos_state\<close>: \<open>HTTPError\<close> and \<open>ValueError\<close> are caught and give \<open>{}\<close>.\<close>

definition get_mesos_state ::
  "mesos_config \<Rightarrow> (string \<Rightarrow> fetched) \<Rightarrow> log_entry list \<times> (exn + json)" where
  "get_mesos_state cfg http =
     (case http (state_url cfg) of
        Decoded j \<Rightarrow> ([], Inr j)
      | HTTPError err \<Rightarrow> ([(ERROR, ''Unable to read JSON response: '' @ err)], Inr (JObj []))
      | NotJSON err \<Rightarrow> ([(ERROR, ''Unable to read JSON response: '' @ err)], Inr (JObj []))
      | OtherURLError \<Rightarrow> ([], Inl URLError))"

text \<open>\<open>obj[key]\<close> for a string key: only a \<open>dict\<close> can be subscripted by a string.\<close>

definition py_getitem :: "json \<Rightarrow> string \<Rightarrow> exn + json" where
  "py_getitem obj key =
     (case obj of
        JObj kvs \<Rightarrow> (case map_of kvs key of None \<Rightarrow> Inl KeyError | Some v \<Rightarrow> Inr v)
      | _ \<Rightarrow> Inl TypeError)"

text \<open>\<open>key in obj\<close> where \<open>obj\<close> is a \<open>dict\<close>.\<close>

definition py_has_key :: "json \<Rightarrow> string \<Rightarrow> bool" where
  "py_has_key obj key = (case obj of JObj kvs \<Rightarrow> map_of kvs key \<noteq> None | _ \<Rightarrow> False)"

text \<open>\<open>for x in obj\<close>: the elements of a list, the keys of a \<open>dict\<close>, the characters of a string.\<close>

definition py_iter :: "json \<Rightarrow> exn + json list" where
  "py_iter obj =
     (case obj of
        JArr xs \<Rightarrow> Inr xs
      | JObj kvs \<Rightarrow> Inr (map (\<lambda>kv. JStr (fst kv)) kvs)
      | JStr s \<Rightarrow> Inr (map (\<lambda>c. JStr [c]) s)
      | _ \<Rightarrow> Inl TypeError)"

text \<open>
  The inner loop of \<open>get_containers\<close>.  The table \<open>containers\<close> is keyed by strings: a
  container id that is a number, a boolean or \<open>null\<close> is stored under a key that no
  directory name equals and is left out; a list or an object cannot be a key.
\<close>

fun add_executors :: "json list \<Rightarrow> (string \<times> json) list \<Rightarrow> exn + (string \<times> json) list" where
  "add_executors [] containers = Inr containers"
| "add_executors (executor # rest) containers =
     (case py_getitem executor ''container'' of
        Inl e \<Rightarrow> Inl e
      | Inr container \<Rightarrow>
          (case py_getitem executor ''source'' of
             Inl e \<Rightarrow> Inl e
           | Inr source \<Rightarrow>
               (case source of
                  JStr s \<Rightarrow>
                    (case split_on (CHR ''.'') s of
                       [role, environment, task, number] \<Rightarrow>
                         (case container of
                            JStr c \<Rightarrow>
                              add_executors rest
                                (dict_set containers c
                                   (JObj [(''role'', JStr role),
                                          (''environment'', JStr environment),
                                          (''task'', JStr task),
                                          (''id'', JStr number)]))
                          | JArr xs \<Rightarrow> Inl TypeError
                          | JObj kvs \<Rightarrow> Inl TypeError
                          | _ \<Rightarrow> add_executors rest containers)
                     | _ \<Rightarrow> Inl ValueError)
                | _ \<Rightarrow> Inl AttributeError)))"

fun add_frameworks :: "json list \<Rightarrow> (string \<times> json) list \<Rightarrow> exn + (string \<times> json) list" where
  "add_frameworks [] containers = Inr containers"
| "add_frameworks (framework # rest) containers =
     (case py_getitem framework ''executors'' of
        Inl e \<Rightarrow> Inl e
      | Inr ex \<Rightarrow>
          (case py_iter ex of
             Inl e \<Rightarrow> Inl e
           | Inr executors \<Rightarrow>
               (case add_executors executors containers of
                  Inl e \<Rightarrow> Inl e
                | Inr containers' \<Rightarrow> add_frameworks rest containers')))"

definition get_containers ::
  "mesos_config \<Rightarrow> (string \<Rightarrow> fetched)
     \<Rightarrow> log_entry list \<times> (exn + (string \<times> json) list)" where
  "get_containers cfg http =
     (case get_mesos_state cfg http of
        (lg, Inl e) \<Rightarrow> (lg, Inl e)
      | (lg, Inr state) \<Rightarrow>
          (lg,
           case py_getitem state ''flags'' of
             Inl e \<Rightarrow> Inl e
           | Inr flags \<Rightarrow>
               if py_has_key state ''frameworks''
               then (case py_getitem state ''frameworks'' of
                       Inl e \<Rightarrow> Inl e
                     | Inr fws \<Rightarrow>
                         (case py_iter fws of
                            Inl e \<Rightarrow> Inl e
                          | Inr frameworks \<Rightarrow> add_frameworks frameworks [(''flags'', flags)]))
               else Inr [(''flags'', flags)]))"

text \<open>\<open>clean_up\<close>: \<open>text.replace('/', '.')\<close>.\<close>

definition clean_up :: "string \<Rightarrow> string" where
  "clean_up text = map (\<lambda>c. if c = CHR ''/'' then CHR ''.'' else c) text"

text \<open>\<open>'.'.join(parts)\<close>: a \<open>TypeError\<close> unless every part is a string.\<close>

fun as_strings :: "json list \<Rightarrow> string list option" where
  "as_strings [] = Some []"
| "as_strings (JStr s # rest) = map_option ((#) s) (as_strings rest)"
| "as_strings (j # rest) = None"

fun join_with :: "string \<Rightarrow> string list \<Rightarrow> string" where
  "join_with sep [] = []"
| "join_with sep [x] = x"
| "join_with sep (x # y # rest) = x @ sep @ join_with sep (y # rest)"

definition dot_join :: "json list \<Rightarrow> exn + string" where
  "dot_join parts =
     (case as_strings parts of None \<Rightarrow> Inl TypeError | Some ss \<Rightarrow> Inr (join_with ''.'' ss))"

text \<open>
  A \<open>for\<close> loop whose body publishes and may raise: the publications of the iterations
  in order, up to and including those of an iteration that raises.
\<close>

fun for_each ::
  "('a \<Rightarrow> 'v publication list \<times> exn option) \<Rightarrow> 'a list \<Rightarrow> 'v publication list \<times> exn option" where
  "for_each body [] = ([], None)"
| "for_each body (x # xs) =
     (case body x of
        (evs, Some e) \<Rightarrow> (evs, Some e)
      | (evs, None) \<Rightarrow> (case for_each body xs of (evs', r) \<Rightarrow> (evs @ evs', r)))"

text \<open>The body of \<open>for kv_pair in data\<close>.\<close>

definition publish_kv :: "json list \<Rightarrow> string \<Rightarrow> string publication list \<times> exn option" where
  "publish_kv key_parts kv_pair =
     (case py_split kv_pair of
        [key, value] \<Rightarrow>
          (case dot_join (key_parts @ [JStr key]) of
             Inl e \<Rightarrow> ([], Some e)
           | Inr name \<Rightarrow> ([Publish (clean_up name) value], None))
      | _ \<Rightarrow> ([], Some ValueError))"

text \<open>The block under \<open>if aspect == "cpuacct"\<close>.\<close>

definition publish_usage ::
  "filesystem \<Rightarrow> json list \<Rightarrow> string \<Rightarrow> string \<Rightarrow> string publication list \<times> exn option" where
  "publish_usage fs key_parts task_dir aspect =
     (case py_open fs (os_path_join task_dir (aspect @ ''.usage'')) of
        Inl e \<Rightarrow> ([], Some e)
      | Inr f \<Rightarrow>
          (case dot_join (key_parts @ [JStr ''usage'']) of
             Inl e \<Rightarrow> ([], Some e)
           | Inr name \<Rightarrow> ([Publish (clean_up name) (fst (readline READ_LIMIT f))], None)))"

text \<open>The list \<open>key_parts\<close> for an entry of the table.\<close>

definition key_parts_of :: "json \<Rightarrow> string \<Rightarrow> exn + json list" where
  "key_parts_of entry aspect =
     (case py_getitem entry ''environment'' of
        Inl e \<Rightarrow> Inl e
      | Inr environment \<Rightarrow>
          (case py_getitem entry ''role'' of
             Inl e \<Rightarrow> Inl e
           | Inr role \<Rightarrow>
               (case py_getitem entry ''task'' of
                  Inl e \<Rightarrow> Inl e
                | Inr task \<Rightarrow>
                    (case py_getitem entry ''id'' of
                       Inl e \<Rightarrow> Inl e
                     | Inr number \<Rightarrow> Inr [environment, role, task, number, JStr aspect]))))"

text \<open>The body of \<open>for task_id in ...\<close>.\<close>

definition collect_task ::
  "filesystem \<Rightarrow> (string \<times> json) list \<Rightarrow> string \<Rightarrow> string \<Rightarrow> string
     \<Rightarrow> string publication list \<times> exn option" where
  "collect_task fs containers aspect aspect_path task_id =
     (case map_of containers task_id of
        None \<Rightarrow> ([], None)
      | Some entry \<Rightarrow>
          (case key_parts_of entry aspect of
             Inl e \<Rightarrow> ([], Some e)
           | Inr key_parts \<Rightarrow>
               (case (if aspect = ''cpuacct''
                      then publish_usage fs key_parts (os_path_join aspect_path task_id) aspect
                      else ([], None)) of
                  (evs, Some e) \<Rightarrow> (evs, Some e)
                | (evs, None) \<Rightarrow>
                    (case py_open fs
                            (os_path_join (os_path_join aspect_path task_id)
                               (aspect @ ''.stat'')) of
                       Inl e \<Rightarrow> (evs, Some e)
                     | Inr f \<Rightarrow>
                         (case for_each (publish_kv key_parts) (readlines f) of
                            (evs', r) \<Rightarrow> (evs @ evs', r))))))"

text \<open>The body of \<open>for aspect in ['cpuacct', 'cpu', 'memory']\<close>.\<close>

definition collect_aspect ::
  "filesystem \<Rightarrow> (string \<times> json) list \<Rightarrow> string \<Rightarrow> string \<Rightarrow> string
     \<Rightarrow> string publication list \<times> exn option" where
  "collect_aspect fs containers sysfs cgroup_root aspect =
     (case os_listdir fs (os_path_join (os_path_join sysfs aspect) cgroup_root) of
        Inl e \<Rightarrow> ([], Some e)
      | Inr contents \<Rightarrow>
          for_each
            (collect_task fs containers aspect
               (os_path_join (os_path_join sysfs aspect) cgroup_root))
            (filter
               (\<lambda>entry. os_path_isdir fs
                  (os_path_join (os_path_join (os_path_join sysfs aspect) cgroup_root) entry))
               contents))"

definition ASPECTS :: "string list" where
  "ASPECTS = [''cpuacct'', ''cpu'', ''memory'']"

text \<open>
  \<open>MesosCGroupCollector.collect\<close>.  \<open>os.path.join\<close> raises \<open>AttributeError\<close> when the
  hierarchy or the root taken from the flags is not a string.
\<close>

definition mesos_collect ::
  "mesos_config \<Rightarrow> (string \<Rightarrow> fetched) \<Rightarrow> filesystem \<Rightarrow> string outcome" where
  "mesos_collect cfg http fs =
     (case get_containers cfg http of
        (lg, Inl e) \<Rightarrow> \<lparr>published = [], logged = lg, raised = Some e\<rparr>
      | (lg, Inr containers) \<Rightarrow>
          (case map_of containers ''flags'' of
             None \<Rightarrow> \<lparr>published = [], logged = lg, raised = Some KeyError\<rparr>
           | Some flags \<Rightarrow>
               (case py_getitem flags ''cgroups_hierarchy'' of
                  Inl e \<Rightarrow> \<lparr>published = [], logged = lg, raised = Some e\<rparr>
                | Inr sysfs \<Rightarrow>
                    (case py_getitem flags ''cgroups_root'' of
                       Inl e \<Rightarrow> \<lparr>published = [], logged = lg, raised = Some e\<rparr>
                     | Inr cgroup_root \<Rightarrow>
                         (case (sysfs, cgroup_root) of
                            (JStr s, JStr c) \<Rightarrow>
                              (case for_each (collect_aspect fs containers s c) ASPECTS of
                                 (evs, r) \<Rightarrow> \<lparr>published = evs, logged = lg, raised = r\<rparr>)
                          | _ \<Rightarrow>
                              \<lparr>published = [], logged = lg, raised = Some AttributeError\<rparr>)))))"

text \<open>
  An example: a state document with one executor whose source has slashes in its role
  and environment, and a cgroup tree with a directory for its container.
\<close>

definition example_state :: json where
  "example_state =
     JObj [(''flags'', JObj [(''cgroups_hierarchy'', JStr ''/sys/fs/cgroup''),
                             (''cgroups_root'', JStr ''mesos'')]),
           (''frameworks'',
            JArr [JObj [(''executors'',
                         JArr [JObj [(''container'', JStr ''c1''),
                                     (''source'', JStr ''www/data.prod/x.hello.0'')]])]])]"

definition example_cgroups :: filesystem where
  "example_cgroups =
     fs_of [(''/sys/fs/cgroup/cpuacct/mesos'', Directory [''c1'', ''zz'']),
            (''/sys/fs/cgroup/cpuacct/mesos/c1'', Directory []),
            (''/sys/fs/cgroup/cpuacct/mesos/zz'', Directory []),
            (''/sys/fs/cgroup/cpuacct/mesos/c1/cpuacct.usage'', RegularFile True (''42'' @ [NL])),
            (''/sys/fs/cgroup/cpuacct/mesos/c1/cpuacct.stat'',
             RegularFile True (''user 1'' @ [NL] @ ''system 2'' @ [NL])),
            (''/sys/fs/cgroup/cpu/mesos'', Directory []),
            (''/sys/fs/cgroup/memory/mesos'', Directory [])]"

text \<open>A network in which every host spec reaches the same peer.\<close>

definition every_host :: "peer \<Rightarrow> network" where
  "every_host p host port = p"

text \<open>An endpoint that gives the same result for every URL.\<close>

definition every_url :: "fetched \<Rightarrow> string \<Rightarrow> fetched" where
  "every_url r url = r"


text \<open>A stand-in for the built-in \<open>float\<close> given by a table of literals and their values.\<close>

definition float_of_table :: "(string \<times> real) list \<Rightarrow> string \<Rightarrow> real option" where
  "float_of_table table s = map_of table s"

text \<open>A converter for the remaining pairs of units that supports none of them.\<close>

definition unsupported_unit :: "real \<Rightarrow> string \<Rightarrow> string \<Rightarrow> exn + real" where
  "unsupported_unit v old_unit new_unit = Inl ValueError"

section \<open>Properties of the IP and UDP collectors\<close>

lemma ip_publish_allowed:
  "ip_publish allowed ms = (evs, r) \<Longrightarrow> ev \<in> set evs
     \<Longrightarrow> names_len allowed = 0 \<or> names_contain allowed (metric_name ev)"
proof (induction allowed ms arbitrary: evs r rule: ip_publish.induct)
  case (1 allowed)
  then show ?case by simp
next
  case (2 allowed name raw rest)
  then show ?case
    by (auto split: if_splits option.splits prod.splits)
qed

lemma udp_publish_allowed:
  "udp_publish h allowed ms st = ((evs, r), st') \<Longrightarrow> ev \<in> set evs
     \<Longrightarrow> names_len allowed = 0 \<or> names_contain allowed (metric_name ev)"
proof (induction h allowed ms st arbitrary: evs r st' rule: udp_publish.induct)
  case (1 h allowed st)
  then show ?case by simp
next
  case (2 h allowed name raw rest st)
  then show ?case
    by (auto split: if_splits option.splits prod.splits)
qed

text \<open>
  What the filter of the two collectors guarantees for either shape of the option: a
  name is published only if the value is empty or \<open>in\<close> holds of the name.  For a list
  that is membership; for a string it is the substring test.
\<close>

lemma ip_collect_filter:
  "ev \<in> set (published (ip_collect allowed fs))
     \<Longrightarrow> names_len allowed = 0 \<or> names_contain allowed (metric_name ev)"
  by (auto simp: ip_collect_def split: prod.splits sum.splits dest: ip_publish_allowed)

lemma udp_collect_filter:
  "ev \<in> set (published (fst (udp_collect h allowed fs st)))
     \<Longrightarrow> names_len allowed = 0 \<or> names_contain allowed (metric_name ev)"
  by (auto simp: udp_collect_def split: prod.splits sum.splits dest: udp_publish_allowed)

lemma list_filter_membership:
  "ev \<in> set (published (ip_collect (NameList names) fs))
     \<Longrightarrow> names = [] \<or> metric_name ev \<in> set names"
  "ev \<in> set (published (fst (udp_collect h (NameList names) fs st)))
     \<Longrightarrow> names = [] \<or> metric_name ev \<in> set names"
  using ip_collect_filter [of ev "NameList names" fs]
        udp_collect_filter [of ev h "NameList names" fs st]
  by auto

lemmas filter_eval =
  ip_collect_def udp_collect_def IP_PROC_def UDP_PROC_def IP_GAUGES_def derivative_def
  IP_DEFAULT_ALLOWED_def UDP_DEFAULT_ALLOWED_def
  os_access_R_def py_open_def seek_header.simps readline_def
  READ_LIMIT_def NL_def startswith_def py_split_def is_space_def py_long_def py_strip_def
  parse_signed_def parse_digits_def is_digit_def digits_val_def digit_val_def single_file_def

text \<open>
  Claim C1 on the code.  The claim: a metric name is published only if the allow-list is
  empty or the name is a member of it.  With the value that \<open>get_default_config\<close> gives
  \<open>allowed_names\<close>, one string of names joined by commas, the test
  \<open>metric_name not in self.config['allowed_names']\<close> is a substring test.  A header token
  \<open>In\<close> (for UDP, \<open>Errors\<close>) occurs in that string and is published, although it is none
  of the names the string lists; with the same names given as a list it is not
  published.
\<close>

theorem default_allow_list_publishes_unlisted_name:
  "PublishCounter ''In'' 5
     \<in> set (published (ip_collect IP_DEFAULT_ALLOWED
          (single_file ''/proc/net/snmp''
             (''Ip: In InReceives'' @ [NL] @ ''Ip: 5 100'' @ [NL]))))
   \<and> ''In'' \<notin> set [''InAddrErrors'', ''InDelivers'', ''InDiscards'', ''InHdrErrors'',
                      ''InReceives'', ''InUnknownProtos'', ''OutDiscards'', ''OutNoRoutes'',
                      ''OutRequests'']
   \<and> published (ip_collect
          (NameList [''InAddrErrors'', ''InDelivers'', ''InDiscards'', ''InHdrErrors'',
                     ''InReceives'', ''InUnknownProtos'', ''OutDiscards'', ''OutNoRoutes'',
                     ''OutRequests''])
          (single_file ''/proc/net/snmp''
             (''Ip: In InReceives'' @ [NL] @ ''Ip: 5 100'' @ [NL])))
     = [PublishCounter ''InReceives'' 100]
   \<and> Publish ''Errors'' 0
     \<in> set (published (fst (udp_collect \<lparr>default_modulus = 0, first_delta = 0\<rparr>
          UDP_DEFAULT_ALLOWED
          (single_file ''/proc/net/snmp''
             (''Udp: Errors NoPorts'' @ [NL] @ ''Udp: 7 9'' @ [NL]))
          Map.empty)))
   \<and> ''Errors'' \<notin> set [''InDatagrams'', ''NoPorts'', ''InErrors'', ''OutDatagrams'',
                          ''RcvbufErrors'', ''SndbufErrors'']"
  by (simp add: filter_eval)

lemmas ip_example_eval =
  ip_collect_def IP_PROC_def IP_GAUGES_def
  os_access_R_def py_open_def seek_header.simps readline_def
  READ_LIMIT_def NL_def startswith_def py_split_def is_space_def py_long_def py_strip_def
  parse_signed_def parse_digits_def is_digit_def digits_val_def digit_val_def single_file_def

text \<open>
  Claim C5, as stated: reading \<open>"Ip: Forwarding InReceives\n1 100\n"\<close> with an empty
  allow-list publishes \<open>Forwarding = 1\<close> as a gauge and \<open>InReceives = 100\<close> as a counter.
  On this input the data row has one token fewer than the header, the assignment
  \<open>metrics[header[2]] = data[2]\<close> raises \<open>IndexError\<close>, and nothing is published.
\<close>

theorem ip_example_counterexample:
  "\<not> (PublishGauge ''Forwarding'' 1 \<in> set (published (ip_collect (NameList [])
          (single_file ''/proc/net/snmp''
             (''Ip: Forwarding InReceives'' @ [NL] @ ''1 100'' @ [NL])))))
   \<and> published (ip_collect (NameList [])
          (single_file ''/proc/net/snmp''
             (''Ip: Forwarding InReceives'' @ [NL] @ ''1 100'' @ [NL]))) = []
   \<and> raised (ip_collect (NameList [])
          (single_file ''/proc/net/snmp''
             (''Ip: Forwarding InReceives'' @ [NL] @ ''1 100'' @ [NL]))) = Some IndexError"
  by (simp add: ip_example_eval)

text \<open>
  Claim C5, amended: reading \<open>"Ip: Forwarding InReceives\nIp: 1 100\n"\<close>, where the data
  row carries its row label as the header does, with an empty allow-list publishes
  exactly two metrics, \<open>Forwarding\<close> with value 1 as a gauge and \<open>InReceives\<close> with value
  100 as a counter, and raises nothing.
\<close>

theorem ip_example_labelled_row:
  "set (published (ip_collect (NameList [])
          (single_file ''/proc/net/snmp''
             (''Ip: Forwarding InReceives'' @ [NL] @ ''Ip: 1 100'' @ [NL]))))
     = {PublishGauge ''Forwarding'' 1, PublishCounter ''InReceives'' 100}
   \<and> length (published (ip_collect (NameList [])
          (single_file ''/proc/net/snmp''
             (''Ip: Forwarding InReceives'' @ [NL] @ ''Ip: 1 100'' @ [NL])))) = 2
   \<and> raised (ip_collect (NameList [])
          (single_file ''/proc/net/snmp''
             (''Ip: Forwarding InReceives'' @ [NL] @ ''Ip: 1 100'' @ [NL]))) = None"
  by (simp add: ip_example_eval)

section \<open>Properties of the derivative collectors\<close>

lemma dict_set_keys: "fst ` set (dict_set m k v) = insert k (fst ` set m)"
  by (induction m k v rule: dict_set.induct) auto

lemma dict_set_distinct: "distinct (map fst m) \<Longrightarrow> distinct (map fst (dict_set m k v))"
proof (induction m)
  case Nil
  then show ?case by simp
next
  case (Cons a m)
  obtain k' v' where a: "a = (k', v')" by (cases a)
  show ?case
  proof (cases "k' = k")
    case True
    with Cons.prems a show ?thesis by simp
  next
    case False
    from Cons.prems a have "k' \<notin> fst ` set m" and "distinct (map fst m)" by auto
    with False Cons.IH a show ?thesis
      using dict_set_keys [of m k v] by auto
  qed
qed

lemma zip_up_distinct:
  "zip_up ixs hs ds m = Inr m' \<Longrightarrow> distinct (map fst m) \<Longrightarrow> distinct (map fst m')"
  by (induction ixs hs ds m rule: zip_up.induct) (auto split: if_splits simp: dict_set_distinct)

lemma snmp_gather_distinct:
  "snmp_gather pre msg fs ps m lg = (lg', Inr m') \<Longrightarrow> distinct (map fst m) \<Longrightarrow> distinct (map fst m')"
proof (induction ps arbitrary: m lg)
  case Nil
  then show ?case by simp
next
  case (Cons p ps)
  show ?case
  proof (cases "os_access_R fs p")
    case False
    with Cons.prems Cons.IH show ?thesis by simp
  next
    case True
    show ?thesis
    proof (cases "py_open fs p")
      case (Inl e)
      with True Cons.prems show ?thesis by simp
    next
      case (Inr fh)
      obtain header dat where sh: "seek_header pre fh = (header, dat)"
        by (cases "seek_header pre fh")
      show ?thesis
      proof (cases "header = [] \<or> dat = []")
        case True
        with \<open>os_access_R fs p\<close> Inr sh Cons.prems Cons.IH show ?thesis by auto
      next
        case False
        show ?thesis
        proof (cases "zip_up [1 ..< length (py_split header)] (py_split header) (py_split dat) m")
          case (Inl e)
          with False \<open>os_access_R fs p\<close> \<open>py_open fs p = Inr fh\<close> sh Cons.prems show ?thesis by auto
        next
          case zr: (Inr m2)
          from zip_up_distinct [OF zr Cons.prems(2)] have d2: "distinct (map fst m2)" .
          from False \<open>os_access_R fs p\<close> \<open>py_open fs p = Inr fh\<close> sh zr Cons.prems(1)
          have "snmp_gather pre msg fs ps m2 lg = (lg', Inr m')" by auto
          from Cons.IH [OF this d2] show ?thesis .
        qed
      qed
    qed
  qed
qed

lemma derivative_state: "snd (derivative h st name v md) = st(name \<mapsto> v)"
  by (simp add: derivative_def split: option.splits)

lemma udp_publish_other:
  "n \<notin> fst ` set ms \<Longrightarrow> snd (udp_publish h allowed ms st) n = st n"
proof (induction ms arbitrary: st)
  case Nil
  then show ?case by simp
next
  case (Cons a ms)
  obtain name raw where a: "a = (name, raw)" by (cases a)
  from Cons.prems a have ne: "n \<noteq> name" and notin: "n \<notin> fst ` set ms" by auto
  show ?case
  proof (cases "names_len allowed > 0 \<and> \<not> names_contain allowed name")
    case True
    with Cons.IH [OF notin] a show ?thesis by simp
  next
    case skip: False
    show ?thesis
    proof (cases "py_long raw")
      case None
      with skip a show ?thesis by auto
    next
      case (Some v)
      obtain delta st' where d: "derivative h st name v None = (delta, st')"
        by (cases "derivative h st name v None")
      with derivative_state [of h st name v None] have st': "st' = st(name \<mapsto> v)" by simp
      have "snd (udp_publish h allowed ms st') n = st' n" by (rule Cons.IH [OF notin])
      moreover have "st' n = st n" using st' ne by simp
      ultimately have "snd (udp_publish h allowed ms st') n = st n" by simp
      with skip a Some d show ?thesis by (auto split: prod.splits)
    qed
  qed
qed

lemma derivative_delta:
  "st name = Some old \<Longrightarrow>
   fst (derivative h st name v md) =
     (if v \<ge> old then v - old else ((case md of None \<Rightarrow> default_modulus h | Some m \<Rightarrow> m) - old) + v)"
  by (simp add: derivative_def)

lemma udp_publish_delta:
  "distinct (map fst ms) \<Longrightarrow> (n, raw) \<in> set ms \<Longrightarrow> py_long raw = Some v1 \<Longrightarrow> st n = Some v0 \<Longrightarrow>
   names_len allowed = 0 \<or> names_contain allowed n \<Longrightarrow>
   snd (fst (udp_publish h allowed ms st)) = None \<Longrightarrow>
   Publish n (if v1 \<ge> v0 then v1 - v0 else (default_modulus h - v0) + v1)
      \<in> set (fst (fst (udp_publish h allowed ms st)))
   \<and> snd (udp_publish h allowed ms st) n = Some v1"
proof (induction ms arbitrary: st)
  case Nil
  then show ?case by simp
next
  case (Cons a ms)
  obtain name raw' where a: "a = (name, raw')" by (cases a)
  show ?case
  proof (cases "name = n")
    case True
    with Cons.prems a have raw': "raw' = raw" and notin: "n \<notin> fst ` set ms"
      by (auto simp: image_iff)
    obtain delta st' where d: "derivative h st n v1 None = (delta, st')"
      by (cases "derivative h st n v1 None")
    from d derivative_state [of h st n v1 None] have st': "st' = st(n \<mapsto> v1)" by simp
    from d derivative_delta [of st n v0 h v1 None] Cons.prems(4)
    have delta: "delta = (if v1 \<ge> v0 then v1 - v0 else (default_modulus h - v0) + v1)" by simp
    have "snd (udp_publish h allowed ms st') n = st' n" by (rule udp_publish_other [OF notin])
    moreover have "st' n = Some v1" using st' by simp
    ultimately have "snd (udp_publish h allowed ms st') n = Some v1" by simp
    with True a raw' Cons.prems(3,5) d delta show ?thesis
      by (auto split: prod.splits)
  next
    case False
    with Cons.prems a have mem: "(n, raw) \<in> set ms" and dist: "distinct (map fst ms)" by auto
    show ?thesis
    proof (cases "names_len allowed > 0 \<and> \<not> names_contain allowed name")
      case True
      with Cons.IH [of st] dist mem Cons.prems(3,4,5,6) a show ?thesis by simp
    next
      case skip: False
      show ?thesis
      proof (cases "py_long raw'")
        case None
        with skip a Cons.prems(6) show ?thesis by auto
      next
        case (Some v)
        obtain delta st' where d: "derivative h st name v None = (delta, st')"
          by (cases "derivative h st name v None")
        from d derivative_state [of h st name v None] have st': "st' = st(name \<mapsto> v)" by simp
        have n': "st' n = Some v0" using False Cons.prems(4) st' by simp
        have r: "snd (fst (udp_publish h allowed ms st')) = None"
          using Cons.prems(6) skip a Some d by (auto split: prod.splits)
        from Cons.IH [of st'] dist mem Cons.prems(3) n' Cons.prems(5) r
        have "Publish n (if v1 \<ge> v0 then v1 - v0 else (default_modulus h - v0) + v1)
                \<in> set (fst (fst (udp_publish h allowed ms st')))
              \<and> snd (udp_publish h allowed ms st') n = Some v1" by blast
        then show ?thesis using skip a Some d by (auto split: prod.splits)
      qed
    qed
  qed
qed

lemma kvm_publish_other:
  "n \<notin> set names \<Longrightarrow> snd (kvm_publish pf h fs names st) n = st n"
proof (induction names arbitrary: st)
  case Nil
  then show ?case by simp
next
  case (Cons a names)
  from Cons.prems have ne: "n \<noteq> a" and notin: "n \<notin> set names" by auto
  show ?case
  proof (cases "py_open fs (os_path_join KVM_PROC a)")
    case (Inl e)
    then show ?thesis by simp
  next
    case (Inr fh)
    show ?thesis
    proof (cases "pf (fst (readline READ_LIMIT fh))")
      case None
      with Inr show ?thesis by simp
    next
      case (Some v)
      obtain delta st' where d: "derivative h st a v (Some KVM_MODULUS) = (delta, st')"
        by (cases "derivative h st a v (Some KVM_MODULUS)")
      with derivative_state [of h st a v "Some KVM_MODULUS"] have st': "st' = st(a \<mapsto> v)" by simp
      have "snd (kvm_publish pf h fs names st') n = st' n" by (rule Cons.IH [OF notin])
      moreover have "st' n = st n" using st' ne by simp
      ultimately have "snd (kvm_publish pf h fs names st') n = st n" by simp
      with Inr Some d show ?thesis by (auto split: prod.splits)
    qed
  qed
qed

lemma kvm_publish_delta:
  "distinct names \<Longrightarrow> n \<in> set names \<Longrightarrow> py_open fs (os_path_join KVM_PROC n) = Inr fh \<Longrightarrow>
   pf (fst (readline READ_LIMIT fh)) = Some v1 \<Longrightarrow> st n = Some v0 \<Longrightarrow>
   snd (fst (kvm_publish pf h fs names st)) = None \<Longrightarrow>
   Publish n (if v1 \<ge> v0 then v1 - v0 else (KVM_MODULUS - v0) + v1)
      \<in> set (fst (fst (kvm_publish pf h fs names st)))
   \<and> snd (kvm_publish pf h fs names st) n = Some v1"
proof (induction names arbitrary: st)
  case Nil
  then show ?case by simp
next
  case (Cons a names)
  show ?case
  proof (cases "a = n")
    case True
    with Cons.prems have notin: "n \<notin> set names" by auto
    obtain delta st' where d: "derivative h st n v1 (Some KVM_MODULUS) = (delta, st')"
      by (cases "derivative h st n v1 (Some KVM_MODULUS)")
    from d derivative_state [of h st n v1 "Some KVM_MODULUS"] have st': "st' = st(n \<mapsto> v1)" by simp
    from d derivative_delta [of st n v0 h v1 "Some KVM_MODULUS"] Cons.prems(5)
    have delta: "delta = (if v1 \<ge> v0 then v1 - v0 else (KVM_MODULUS - v0) + v1)" by simp
    have "snd (kvm_publish pf h fs names st') n = st' n" by (rule kvm_publish_other [OF notin])
    moreover have "st' n = Some v1" using st' by simp
    ultimately have "snd (kvm_publish pf h fs names st') n = Some v1" by simp
    with True Cons.prems(3,4) d delta show ?thesis
      by (auto split: prod.splits)
  next
    case False
    with Cons.prems have mem: "n \<in> set names" and dist: "distinct names" by auto
    show ?thesis
    proof (cases "py_open fs (os_path_join KVM_PROC a)")
      case (Inl e)
      with Cons.prems(6) show ?thesis by simp
    next
      case (Inr fa)
      show ?thesis
      proof (cases "pf (fst (readline READ_LIMIT fa))")
        case None
        with Inr Cons.prems(6) show ?thesis by simp
      next
        case (Some v)
        obtain delta st' where d: "derivative h st a v (Some KVM_MODULUS) = (delta, st')"
          by (cases "derivative h st a v (Some KVM_MODULUS)")
        from d derivative_state [of h st a v "Some KVM_MODULUS"] have st': "st' = st(a \<mapsto> v)" by simp
        have n': "st' n = Some v0" using False Cons.prems(5) st' by simp
        have r: "snd (fst (kvm_publish pf h fs names st')) = None"
          using Cons.prems(6) Inr Some d by (auto split: prod.splits)
        from Cons.IH [of st'] dist mem Cons.prems(3,4) n' r
        have "Publish n (if v1 \<ge> v0 then v1 - v0 else (KVM_MODULUS - v0) + v1)
                \<in> set (fst (fst (kvm_publish pf h fs names st')))
              \<and> snd (kvm_publish pf h fs names st') n = Some v1" by blast
        then show ?thesis using Inr Some d by (auto split: prod.splits)
      qed
    qed
  qed
qed

lemma udp_collect_delta:
  assumes "snmp_gather ''Udp'' '' has no lines with Udp'' fs UDP_PROC [] [] = (lg, Inr metrics)"
    and "(n, raw) \<in> set metrics" and "py_long raw = Some v1" and "st n = Some v0"
    and "names_len allowed = 0 \<or> names_contain allowed n"
    and "raised (fst (udp_collect h allowed fs st)) = None"
  shows "Publish n (if v1 \<ge> v0 then v1 - v0 else (default_modulus h - v0) + v1)
           \<in> set (published (fst (udp_collect h allowed fs st)))
         \<and> snd (udp_collect h allowed fs st) n = Some v1"
proof -
  from snmp_gather_distinct [OF assms(1)] have dist: "distinct (map fst metrics)" by simp
  obtain evs r st' where p: "udp_publish h allowed metrics st = ((evs, r), st')"
    by (cases "udp_publish h allowed metrics st") auto
  from assms(1,6) p have r: "snd (fst (udp_publish h allowed metrics st)) = None"
    by (simp add: udp_collect_def)
  from udp_publish_delta [of metrics n raw v1 st v0 allowed h] dist assms(2,3,4,5) r
  have "Publish n (if v1 \<ge> v0 then v1 - v0 else (default_modulus h - v0) + v1)
           \<in> set (fst (fst (udp_publish h allowed metrics st)))
        \<and> snd (udp_publish h allowed metrics st) n = Some v1" by blast
  with assms(1) p show ?thesis by (simp add: udp_collect_def)
qed

lemma kvm_collect_delta:
  assumes "fs KVM_PROC = Some (Directory names)" and "distinct names" and "m \<in> set names"
    and "fs (os_path_join KVM_PROC m) = Some (RegularFile True content)"
    and "pyfloat (fst (readline READ_LIMIT content)) = Some w1" and "kst m = Some w0"
    and "raised (fst (kvm_collect pyfloat kh fs kst)) = None"
  shows "Publish m (if w1 \<ge> w0 then w1 - w0 else (4294967295 - w0) + w1)
           \<in> set (published (fst (kvm_collect pyfloat kh fs kst)))
         \<and> snd (kvm_collect pyfloat kh fs kst) m = Some w1"
proof -
  have o: "py_open fs (os_path_join KVM_PROC m) = Inr content"
    using assms(4) by (simp add: py_open_def)
  obtain evs r st' where p: "kvm_publish pyfloat kh fs names kst = ((evs, r), st')"
    by (cases "kvm_publish pyfloat kh fs names kst") auto
  from assms(1,7) p have r: "snd (fst (kvm_publish pyfloat kh fs names kst)) = None"
    by (simp add: kvm_collect_def os_path_isdir_def os_listdir_def)
  from kvm_publish_delta [of names m fs content pyfloat w1 kst w0 kh] assms(2,3,5,6) o r
  have "Publish m (if w1 \<ge> w0 then w1 - w0 else (KVM_MODULUS - w0) + w1)
           \<in> set (fst (fst (kvm_publish pyfloat kh fs names kst)))
        \<and> snd (kvm_publish pyfloat kh fs names kst) m = Some w1" by blast
  with assms(1) p show ?thesis
    by (auto simp: kvm_collect_def os_path_isdir_def os_listdir_def KVM_MODULUS_def
             split: if_splits)
qed

text \<open>
  Claim C4.  For the collectors that publish a derivative (UDP, KVM) and a metric whose
  previously observed raw value is \<open>v0\<close> and whose raw value in this cycle is \<open>v1\<close>: in a
  cycle that completes, the delta published is \<open>v1 - v0\<close> if \<open>v1 \<ge> v0\<close> and
  \<open>(modulus - v0) + v1\<close> otherwise, and \<open>v1\<close> becomes the observed value for the next
  cycle.  UDP passes no modulus, so the host's default applies; KVM passes 4294967295.
\<close>

theorem derivative_collectors_delta:
  "(snmp_gather ''Udp'' '' has no lines with Udp'' fs UDP_PROC [] [] = (lg, Inr metrics)
      \<and> (n, raw) \<in> set metrics \<and> py_long raw = Some v1 \<and> st n = Some v0
      \<and> (names_len allowed = 0 \<or> names_contain allowed n)
      \<and> raised (fst (udp_collect h allowed fs st)) = None
    \<longrightarrow> Publish n (if v1 \<ge> v0 then v1 - v0 else (default_modulus h - v0) + v1)
           \<in> set (published (fst (udp_collect h allowed fs st)))
        \<and> snd (udp_collect h allowed fs st) n = Some v1)
   \<and> (kfs KVM_PROC = Some (Directory names) \<and> distinct names \<and> m \<in> set names
      \<and> kfs (os_path_join KVM_PROC m) = Some (RegularFile True content)
      \<and> pyfloat (fst (readline READ_LIMIT content)) = Some w1 \<and> kst m = Some w0
      \<and> raised (fst (kvm_collect pyfloat kh kfs kst)) = None
    \<longrightarrow> Publish m (if w1 \<ge> w0 then w1 - w0 else (4294967295 - w0) + w1)
           \<in> set (published (fst (kvm_collect pyfloat kh kfs kst)))
        \<and> snd (kvm_collect pyfloat kh kfs kst) m = Some w1)"
proof (rule conjI; rule impI)
  assume a: "snmp_gather ''Udp'' '' has no lines with Udp'' fs UDP_PROC [] [] = (lg, Inr metrics)
      \<and> (n, raw) \<in> set metrics \<and> py_long raw = Some v1 \<and> st n = Some v0
      \<and> (names_len allowed = 0 \<or> names_contain allowed n)
      \<and> raised (fst (udp_collect h allowed fs st)) = None"
  from a udp_collect_delta [of fs lg metrics n raw v1 st v0 allowed h]
  show "Publish n (if v1 \<ge> v0 then v1 - v0 else (default_modulus h - v0) + v1)
           \<in> set (published (fst (udp_collect h allowed fs st)))
        \<and> snd (udp_collect h allowed fs st) n = Some v1"
    by blast
next
  assume b: "kfs KVM_PROC = Some (Directory names) \<and> distinct names \<and> m \<in> set names
      \<and> kfs (os_path_join KVM_PROC m) = Some (RegularFile True content)
      \<and> pyfloat (fst (readline READ_LIMIT content)) = Some w1 \<and> kst m = Some w0
      \<and> raised (fst (kvm_collect pyfloat kh kfs kst)) = None"
  from b kvm_collect_delta [of kfs names m content pyfloat w1 kst w0 kh]
  show "Publish m (if w1 \<ge> w0 then w1 - w0 else (4294967295 - w0) + w1)
           \<in> set (published (fst (kvm_collect pyfloat kh kfs kst)))
        \<and> snd (kvm_collect pyfloat kh kfs kst) m = Some w1"
    by blast
qed

lemmas delta_udp_eval =
  udp_collect_def UDP_PROC_def derivative_def
  os_access_R_def py_open_def seek_header.simps readline_def
  READ_LIMIT_def NL_def startswith_def py_split_def is_space_def py_long_def py_strip_def
  parse_signed_def parse_digits_def is_digit_def digits_val_def digit_val_def single_file_def

lemmas delta_kvm_eval =
  kvm_collect_def KVM_PROC_def KVM_MODULUS_def derivative_def fs_of_def os_path_isdir_def
  os_listdir_def os_path_join_def startswith_def endswith_def py_open_def readline_def
  READ_LIMIT_def NL_def float_of_int_literal_def py_int_def py_strip_def is_space_def
  parse_signed_def parse_digits_def is_digit_def digits_val_def digit_val_def

theorem derivative_collectors_delta_witness:
  "Publish ''NoPorts'' 4294967289
     \<in> set (published (fst (udp_collect \<lparr>default_modulus = 4294967296, first_delta = 0\<rparr>
          (NameList [])
          (single_file ''/proc/net/snmp''
             (''Udp: InDatagrams NoPorts'' @ [NL] @ ''Udp: 7 3'' @ [NL]))
          [''NoPorts'' \<mapsto> 10])))
   \<and> Publish ''exits'' 3
     \<in> set (published (fst (kvm_collect float_of_int_literal
          \<lparr>default_modulus = 0, first_delta = 0\<rparr>
          (fs_of [(''/sys/kernel/debug/kvm'', Directory [''exits'']),
                  (''/sys/kernel/debug/kvm/exits'', RegularFile True (''5'' @ [NL]))])
          [''exits'' \<mapsto> 2])))"
proof -
  let ?h = "\<lparr>default_modulus = 4294967296, first_delta = 0\<rparr> :: int host"
  let ?fs = "single_file ''/proc/net/snmp''
               (''Udp: InDatagrams NoPorts'' @ [NL] @ ''Udp: 7 3'' @ [NL])"
  let ?st = "[''NoPorts'' \<mapsto> (10::int)]"
  let ?kh = "\<lparr>default_modulus = 0, first_delta = 0\<rparr> :: real host"
  let ?kfs = "fs_of [(''/sys/kernel/debug/kvm'', Directory [''exits'']),
                     (''/sys/kernel/debug/kvm/exits'', RegularFile True (''5'' @ [NL]))]"
  let ?kst = "[''exits'' \<mapsto> (2::real)]"
  have u1: "snmp_gather ''Udp'' '' has no lines with Udp'' ?fs UDP_PROC [] []
              = ([], Inr [(''InDatagrams'', ''7''), (''NoPorts'', ''3'')])"
    by (simp add: delta_udp_eval)
  have u2: "(''NoPorts'', ''3'') \<in> set [(''InDatagrams'', ''7''), (''NoPorts'', ''3'')]"
    by simp
  have u3: "py_long ''3'' = Some 3" by (simp add: delta_udp_eval)
  have u4: "?st ''NoPorts'' = Some 10" by simp
  have u5: "raised (fst (udp_collect ?h (NameList []) ?fs ?st)) = None" by (simp add: delta_udp_eval)
  have k1: "?kfs KVM_PROC = Some (Directory [''exits''])" by (simp add: delta_kvm_eval)
  have k2: "?kfs (os_path_join KVM_PROC ''exits'') = Some (RegularFile True (''5'' @ [NL]))"
    by (simp add: delta_kvm_eval)
  have k3: "float_of_int_literal (fst (readline READ_LIMIT (''5'' @ [NL]))) = Some 5"
    by (simp add: delta_kvm_eval)
  have k4: "?kst ''exits'' = Some 2" by simp
  have k5: "raised (fst (kvm_collect float_of_int_literal ?kh ?kfs ?kst)) = None"
    by (simp add: delta_kvm_eval)
  from derivative_collectors_delta
         [of ?fs "[]" "[(''InDatagrams'', ''7''), (''NoPorts'', ''3'')]" "''NoPorts''" "''3''"
             3 ?st 10 "NameList []" ?h ?kfs "[''exits'']" "''exits''" "''5'' @ [NL]"
             float_of_int_literal 5 ?kst 2 ?kh]
       u1 u2 u3 u4 u5 k1 k2 k3 k4 k5
  show ?thesis by simp
qed

lemma kvm_abort:
  "py_open fs (os_path_join KVM_PROC f) = Inr fh \<Longrightarrow> pf (fst (readline READ_LIMIT fh)) = None \<Longrightarrow>
   snd (fst (kvm_publish pf h fs (pre @ f # post) st)) \<noteq> None
   \<and> (\<forall>ev \<in> set (fst (fst (kvm_publish pf h fs (pre @ f # post) st))).
          metric_name ev \<in> set pre)"
proof (induction pre arbitrary: st)
  case Nil
  then show ?case by simp
next
  case (Cons a pre)
  show ?case
  proof (cases "py_open fs (os_path_join KVM_PROC a)")
    case (Inl e)
    then show ?thesis by simp
  next
    case (Inr fa)
    show ?thesis
    proof (cases "pf (fst (readline READ_LIMIT fa))")
      case None
      with Inr show ?thesis by simp
    next
      case (Some v)
      obtain delta st' where d: "derivative h st a v (Some KVM_MODULUS) = (delta, st')"
        by (cases "derivative h st a v (Some KVM_MODULUS)")
      from Cons.IH [of st'] Cons.prems
      have "snd (fst (kvm_publish pf h fs (pre @ f # post) st')) \<noteq> None
          \<and> (\<forall>ev \<in> set (fst (fst (kvm_publish pf h fs (pre @ f # post) st'))).
                 metric_name ev \<in> set pre)"
        by blast
      then show ?thesis using Inr Some d by (auto split: prod.splits)
    qed
  qed
qed

lemma ksm_skip:
  "fs f = Some (RegularFile True content) \<Longrightarrow>
   pf (py_rstrip (fst (readline READ_LIMIT content))) = None \<Longrightarrow>
   ksm_publish pf fs (pre @ f # post) = ksm_publish pf fs (pre @ post)"
  by (induction pre)
     (auto simp: os_access_R_def py_open_def split: sum.splits option.splits prod.splits)

lemma ksm_publish_sibling:
  "s \<in> set items \<Longrightarrow> fs s = Some (RegularFile True c) \<Longrightarrow>
   pf (py_rstrip (fst (readline READ_LIMIT c))) = Some v \<Longrightarrow>
   snd (ksm_publish pf fs items) = None \<Longrightarrow>
   Publish (os_path_basename s) v \<in> set (fst (ksm_publish pf fs items))"
proof (induction items)
  case Nil
  then show ?case by simp
next
  case (Cons a items)
  show ?case
  proof (cases "a = s")
    case True
    with Cons.prems(2,3) show ?thesis
      by (simp add: os_access_R_def py_open_def split: prod.splits)
  next
    case False
    with Cons.prems(1) have mem: "s \<in> set items" by simp
    have r: "snd (ksm_publish pf fs items) = None"
      using Cons.prems(4)
      by (auto split: if_splits sum.splits option.splits prod.splits)
    from Cons.IH [OF mem Cons.prems(2,3) r]
    have "Publish (os_path_basename s) v \<in> set (fst (ksm_publish pf fs items))" .
    then show ?thesis
      using Cons.prems(4)
      by (auto split: if_splits sum.splits option.splits prod.splits)
  qed
qed

text \<open>
  Claim C10.  In \<open>KVMCollector.collect\<close>, a file of the debugfs directory whose first line
  does not parse as a float makes the cycle end with an uncaught exception, and only
  files listed before it can have been published.  In \<open>KSMCollector.collect\<close> such a file
  is skipped without a log entry: the cycle publishes and raises what it would if the
  file were not listed, and in a cycle that raises nothing every other listed file that
  is readable and whose first line parses is published under its base name with the
  parsed value.
\<close>

theorem kvm_aborts_ksm_skips:
  "(kfs KVM_PROC = Some (Directory (pre @ f # post))
      \<and> kfs (os_path_join KVM_PROC f) = Some (RegularFile True content)
      \<and> pyfloat (fst (readline READ_LIMIT content)) = None
    \<longrightarrow> raised (fst (kvm_collect pyfloat h kfs st)) \<noteq> None
        \<and> (\<forall>ev \<in> set (published (fst (kvm_collect pyfloat h kfs st))).
               metric_name ev \<in> set pre))
   \<and> (glob_star fs ksm_path = pre' @ item # post'
      \<and> fs item = Some (RegularFile True content')
      \<and> pyfloat' (py_rstrip (fst (readline READ_LIMIT content'))) = None
    \<longrightarrow> published (ksm_collect pyfloat' ksm_path fs) = fst (ksm_publish pyfloat' fs (pre' @ post'))
        \<and> raised (ksm_collect pyfloat' ksm_path fs) = snd (ksm_publish pyfloat' fs (pre' @ post'))
        \<and> logged (ksm_collect pyfloat' ksm_path fs) = []
        \<and> (\<forall>s \<in> set (pre' @ post'). \<forall>c v.
              fs s = Some (RegularFile True c)
              \<and> pyfloat' (py_rstrip (fst (readline READ_LIMIT c))) = Some v
              \<and> raised (ksm_collect pyfloat' ksm_path fs) = None
            \<longrightarrow> Publish (os_path_basename s) v
                  \<in> set (published (ksm_collect pyfloat' ksm_path fs))))"
proof (rule conjI; rule impI)
  assume a: "kfs KVM_PROC = Some (Directory (pre @ f # post))
      \<and> kfs (os_path_join KVM_PROC f) = Some (RegularFile True content)
      \<and> pyfloat (fst (readline READ_LIMIT content)) = None"
  then have o: "py_open kfs (os_path_join KVM_PROC f) = Inr content"
    by (simp add: py_open_def)
  from kvm_abort [of kfs f content pyfloat h pre post st] o a
  have "snd (fst (kvm_publish pyfloat h kfs (pre @ f # post) st)) \<noteq> None
      \<and> (\<forall>ev \<in> set (fst (fst (kvm_publish pyfloat h kfs (pre @ f # post) st))).
             metric_name ev \<in> set pre)"
    by simp
  with a show "raised (fst (kvm_collect pyfloat h kfs st)) \<noteq> None
        \<and> (\<forall>ev \<in> set (published (fst (kvm_collect pyfloat h kfs st))).
               metric_name ev \<in> set pre)"
    by (auto simp: kvm_collect_def os_path_isdir_def os_listdir_def split: prod.splits)
next
  assume b: "glob_star fs ksm_path = pre' @ item # post'
      \<and> fs item = Some (RegularFile True content')
      \<and> pyfloat' (py_rstrip (fst (readline READ_LIMIT content'))) = None"
  from ksm_skip [of fs item content' pyfloat' pre' post'] b
  have eq: "ksm_publish pyfloat' fs (glob_star fs ksm_path) = ksm_publish pyfloat' fs (pre' @ post')"
    by simp
  then have first: "published (ksm_collect pyfloat' ksm_path fs) = fst (ksm_publish pyfloat' fs (pre' @ post'))
        \<and> raised (ksm_collect pyfloat' ksm_path fs) = snd (ksm_publish pyfloat' fs (pre' @ post'))
        \<and> logged (ksm_collect pyfloat' ksm_path fs) = []"
    by (simp add: ksm_collect_def split: prod.splits)
  have siblings: "\<forall>s \<in> set (pre' @ post'). \<forall>c v.
              fs s = Some (RegularFile True c)
              \<and> pyfloat' (py_rstrip (fst (readline READ_LIMIT c))) = Some v
              \<and> raised (ksm_collect pyfloat' ksm_path fs) = None
            \<longrightarrow> Publish (os_path_basename s) v
                  \<in> set (published (ksm_collect pyfloat' ksm_path fs))"
  proof (intro ballI allI impI)
    fix s c v
    assume s: "s \<in> set (pre' @ post')"
      and h: "fs s = Some (RegularFile True c)
              \<and> pyfloat' (py_rstrip (fst (readline READ_LIMIT c))) = Some v
              \<and> raised (ksm_collect pyfloat' ksm_path fs) = None"
    from h first have r: "snd (ksm_publish pyfloat' fs (pre' @ post')) = None" by simp
    from h have f: "fs s = Some (RegularFile True c)"
      and v: "pyfloat' (py_rstrip (fst (readline READ_LIMIT c))) = Some v" by simp_all
    from ksm_publish_sibling [OF s f v r] first
    show "Publish (os_path_basename s) v \<in> set (published (ksm_collect pyfloat' ksm_path fs))"
      by simp
  qed
  from first siblings
  show "published (ksm_collect pyfloat' ksm_path fs) = fst (ksm_publish pyfloat' fs (pre' @ post'))
        \<and> raised (ksm_collect pyfloat' ksm_path fs) = snd (ksm_publish pyfloat' fs (pre' @ post'))
        \<and> logged (ksm_collect pyfloat' ksm_path fs) = []
        \<and> (\<forall>s \<in> set (pre' @ post'). \<forall>c v.
              fs s = Some (RegularFile True c)
              \<and> pyfloat' (py_rstrip (fst (readline READ_LIMIT c))) = Some v
              \<and> raised (ksm_collect pyfloat' ksm_path fs) = None
            \<longrightarrow> Publish (os_path_basename s) v
                  \<in> set (published (ksm_collect pyfloat' ksm_path fs)))"
    by (intro conjI) (elim conjE, assumption)+
qed

lemmas abort_eval =
  kvm_collect_def ksm_collect_def KVM_PROC_def KVM_MODULUS_def derivative_def fs_of_def
  os_path_isdir_def os_listdir_def os_path_join_def os_access_R_def os_path_basename_def
  glob_star_def startswith_def endswith_def py_open_def readline_def READ_LIMIT_def NL_def
  float_of_int_literal_def py_int_def py_strip_def py_rstrip_def is_space_def
  parse_signed_def parse_digits_def is_digit_def digits_val_def digit_val_def

theorem kvm_aborts_ksm_skips_witness:
  "published (fst (kvm_collect float_of_int_literal \<lparr>default_modulus = 0, first_delta = 0\<rparr>
      (fs_of [(''/sys/kernel/debug/kvm'', Directory [''a'', ''b'', ''c'']),
              (''/sys/kernel/debug/kvm/a'', RegularFile True (''1'' @ [NL])),
              (''/sys/kernel/debug/kvm/b'', RegularFile True (''x'' @ [NL])),
              (''/sys/kernel/debug/kvm/c'', RegularFile True (''3'' @ [NL]))])
      Map.empty)) = [Publish ''a'' 0]
   \<and> raised (fst (kvm_collect float_of_int_literal \<lparr>default_modulus = 0, first_delta = 0\<rparr>
      (fs_of [(''/sys/kernel/debug/kvm'', Directory [''a'', ''b'', ''c'']),
              (''/sys/kernel/debug/kvm/a'', RegularFile True (''1'' @ [NL])),
              (''/sys/kernel/debug/kvm/b'', RegularFile True (''x'' @ [NL])),
              (''/sys/kernel/debug/kvm/c'', RegularFile True (''3'' @ [NL]))])
      Map.empty)) \<noteq> None
   \<and> published (ksm_collect float_of_int_literal ''/sys/kernel/mm/ksm''
      (fs_of [(''/sys/kernel/mm/ksm'', Directory [''a'', ''b'', ''c'']),
              (''/sys/kernel/mm/ksm/a'', RegularFile True (''1'' @ [NL])),
              (''/sys/kernel/mm/ksm/b'', RegularFile True (''x'' @ [NL])),
              (''/sys/kernel/mm/ksm/c'', RegularFile True (''3'' @ [NL]))]))
      = [Publish ''a'' 1, Publish ''c'' 3]
   \<and> raised (ksm_collect float_of_int_literal ''/sys/kernel/mm/ksm''
      (fs_of [(''/sys/kernel/mm/ksm'', Directory [''a'', ''b'', ''c'']),
              (''/sys/kernel/mm/ksm/a'', RegularFile True (''1'' @ [NL])),
              (''/sys/kernel/mm/ksm/b'', RegularFile True (''x'' @ [NL])),
              (''/sys/kernel/mm/ksm/c'', RegularFile True (''3'' @ [NL]))])) = None
   \<and> Publish (os_path_basename ''/sys/kernel/mm/ksm/c'') 3
     \<in> set (published (ksm_collect float_of_int_literal ''/sys/kernel/mm/ksm''
      (fs_of [(''/sys/kernel/mm/ksm'', Directory [''a'', ''b'', ''c'']),
              (''/sys/kernel/mm/ksm/a'', RegularFile True (''1'' @ [NL])),
              (''/sys/kernel/mm/ksm/b'', RegularFile True (''x'' @ [NL])),
              (''/sys/kernel/mm/ksm/c'', RegularFile True (''3'' @ [NL]))])))"
proof -
  define h where "h = (\<lparr>default_modulus = 0, first_delta = 0\<rparr> :: real host)"
  define kfs where "kfs = fs_of [(''/sys/kernel/debug/kvm'', Directory [''a'', ''b'', ''c'']),
              (''/sys/kernel/debug/kvm/a'', RegularFile True (''1'' @ [NL])),
              (''/sys/kernel/debug/kvm/b'', RegularFile True (''x'' @ [NL])),
              (''/sys/kernel/debug/kvm/c'', RegularFile True (''3'' @ [NL]))]"
  define fs where "fs = fs_of [(''/sys/kernel/mm/ksm'', Directory [''a'', ''b'', ''c'']),
              (''/sys/kernel/mm/ksm/a'', RegularFile True (''1'' @ [NL])),
              (''/sys/kernel/mm/ksm/b'', RegularFile True (''x'' @ [NL])),
              (''/sys/kernel/mm/ksm/c'', RegularFile True (''3'' @ [NL]))]"
  define pa where "pa = ''/sys/kernel/mm/ksm/a''"
  define pb where "pb = ''/sys/kernel/mm/ksm/b''"
  define pc where "pc = ''/sys/kernel/mm/ksm/c''"
  define bad where "bad = ''x'' @ [NL]"
  define good where "good = ''3'' @ [NL]"
  have k1: "kfs KVM_PROC = Some (Directory ([''a''] @ ''b'' # [''c'']))"
    by (simp add: kfs_def abort_eval)
  have k2: "kfs (os_path_join KVM_PROC ''b'') = Some (RegularFile True bad)"
    by (simp add: kfs_def bad_def abort_eval)
  have k3: "float_of_int_literal (fst (readline READ_LIMIT bad)) = None"
    by (simp add: bad_def abort_eval)
  have s1: "glob_star fs ''/sys/kernel/mm/ksm'' = [pa] @ pb # [pc]"
    by (simp add: fs_def pa_def pb_def pc_def abort_eval)
  have s2: "fs pb = Some (RegularFile True bad)"
    by (simp add: fs_def pb_def bad_def abort_eval)
  have s3: "float_of_int_literal (py_rstrip (fst (readline READ_LIMIT bad))) = None"
    by (simp add: bad_def abort_eval)
  have s4: "fs pc = Some (RegularFile True good)"
    by (simp add: fs_def pc_def good_def abort_eval)
  have s5: "float_of_int_literal (py_rstrip (fst (readline READ_LIMIT good))) = Some 3"
    by (simp add: good_def abort_eval)
  have e1: "published (fst (kvm_collect float_of_int_literal h kfs Map.empty)) = [Publish ''a'' 0]"
    by (simp add: h_def kfs_def abort_eval)
  have e2: "ksm_publish float_of_int_literal fs ([pa] @ [pc])
            = ([Publish ''a'' 1, Publish ''c'' 3], None)"
    by (simp add: fs_def pa_def pc_def abort_eval)
  note t = kvm_aborts_ksm_skips
             [of kfs "[''a'']" "''b''" "[''c'']" bad float_of_int_literal h Map.empty
                 fs "''/sys/kernel/mm/ksm''" "[pa]" pb "[pc]" bad float_of_int_literal]
  have kprem: "kfs KVM_PROC = Some (Directory ([''a''] @ ''b'' # [''c'']))
      \<and> kfs (os_path_join KVM_PROC ''b'') = Some (RegularFile True bad)
      \<and> float_of_int_literal (fst (readline READ_LIMIT bad)) = None"
    using k1 k2 k3 by (intro conjI)
  have sprem: "glob_star fs ''/sys/kernel/mm/ksm'' = [pa] @ pb # [pc]
      \<and> fs pb = Some (RegularFile True bad)
      \<and> float_of_int_literal (py_rstrip (fst (readline READ_LIMIT bad))) = None"
    using s1 s2 s3 by (intro conjI)
  from t [THEN conjunct1, THEN mp, OF kprem]
  have kvm: "raised (fst (kvm_collect float_of_int_literal h kfs Map.empty)) \<noteq> None"
    by (rule conjunct1)
  note ksm = t [THEN conjunct2, THEN mp, OF sprem]
  from ksm e2
  have pub: "published (ksm_collect float_of_int_literal ''/sys/kernel/mm/ksm'' fs)
               = [Publish ''a'' 1, Publish ''c'' 3]"
    and r0: "raised (ksm_collect float_of_int_literal ''/sys/kernel/mm/ksm'' fs) = None"
    by simp_all
  have mem: "pc \<in> set ([pa] @ [pc])" by simp
  note sib = ksm [THEN conjunct2, THEN conjunct2, THEN conjunct2, rule_format, OF mem]
  have sibling: "Publish (os_path_basename pc) 3
       \<in> set (published (ksm_collect float_of_int_literal ''/sys/kernel/mm/ksm'' fs))"
    by (rule sib [OF conjI [OF s4 conjI [OF s5 r0]]])
  from e1 kvm pub r0 sibling show ?thesis
    unfolding h_def kfs_def fs_def pc_def by (intro conjI)
qed

section \<open>Properties of the uptime collector\<close>

text \<open>
  Claim C8.  \<open>UptimeCollector.collect\<close>: when the source path does not exist, nothing is
  published and exactly one error is logged; when it exists with content
  \<open>"12345.67 8900.12\n"\<close> and the target unit is minutes, exactly one metric is
  published, with value \<open>12345.67 / 60\<close>.
\<close>

theorem uptime_collect_cases:
  "(fs0 UPTIME_PROC = None \<longrightarrow>
      uptime_collect pyfloat0 other0 unit fs0 =
        \<lparr>published = [], logged = [(ERROR, ''Input path /proc/uptime does not exist'')],
         raised = None\<rparr>)
   \<and> (fs UPTIME_PROC = Some (RegularFile True (''12345.67 8900.12'' @ [NL]))
        \<and> pyfloat ''12345.67'' = Some 12345.67 \<longrightarrow>
      uptime_collect pyfloat other ''minutes'' fs =
        \<lparr>published = [Publish ''minutes'' (12345.67 / 60)], logged = [], raised = None\<rparr>)"
  by (simp add: uptime_collect_def os_path_exists_def UPTIME_PROC_def uptime_read_def
        uptime_read_body_def py_open_def readline_def READ_LIMIT_def NL_def py_split_def
        is_space_def py_strip_def time_convert_def)

theorem uptime_collect_cases_witness:
  "uptime_collect (float_of_table [(''12345.67'', 12345.67)]) unsupported_unit ''minutes''
       (fs_of []) =
     \<lparr>published = [], logged = [(ERROR, ''Input path /proc/uptime does not exist'')],
      raised = None\<rparr>
   \<and> uptime_collect (float_of_table [(''12345.67'', 12345.67)]) unsupported_unit ''minutes''
       (single_file ''/proc/uptime'' (''12345.67 8900.12'' @ [NL])) =
     \<lparr>published = [Publish ''minutes'' (12345.67 / 60)], logged = [], raised = None\<rparr>"
proof -
  have a: "fs_of [] UPTIME_PROC = None" by (simp add: fs_of_def)
  have b: "single_file ''/proc/uptime'' (''12345.67 8900.12'' @ [NL]) UPTIME_PROC
             = Some (RegularFile True (''12345.67 8900.12'' @ [NL]))"
    by (simp add: single_file_def UPTIME_PROC_def)
  have c: "float_of_table [(''12345.67'', 12345.67)] ''12345.67'' = Some 12345.67"
    by (simp add: float_of_table_def)
  from uptime_collect_cases
         [of "fs_of []" "float_of_table [(''12345.67'', 12345.67)]" unsupported_unit
             "''minutes''" "single_file ''/proc/uptime'' (''12345.67 8900.12'' @ [NL])"
             "float_of_table [(''12345.67'', 12345.67)]" unsupported_unit]
       a b c
  show ?thesis by blast
qed

section \<open>Properties of the memcached collector\<close>

lemma parse_stats_pid:
  "parse_stats pyfloat ls pid stats = Inr (pid', stats') \<Longrightarrow> pid' = pid"
proof (induction ls arbitrary: stats)
  case Nil
  then show ?case by simp
next
  case (Cons line ls)
  then show ?case
    by (auto simp: ignored_def split: list.splits if_splits option.splits)
qed

lemmas pid_eval =
  get_stats_def get_raw_stats_def exchange_def answering_def every_host_def endswith_def NL_def CR_def
  py_splitlines_def read_maxconn_def pid_text_def ignored_def startswith_def py_open_def
  fs_of_def readline_def READ_LIMIT_def NUL_def
  py_int_def py_strip_def is_space_def parse_signed_def parse_digits_def is_digit_def
  digits_val_def digit_val_def

text \<open>
  Claim C3 on the code.  The response holds the line \<open>STAT pid 1234\<close> and
  \<open>/proc/1234/cmdline\<close> holds the argument \<open>-c 2048\<close>.  Since \<open>pid\<close> is a member of
  \<open>ignored\<close>, the line is skipped before the branch that would capture it; \<open>pid\<close> stays
  \<open>None\<close>, \<open>/proc/None/cmdline\<close> is opened instead, the failure is swallowed, and the
  returned stats hold no \<open>limit_maxconn\<close>.  Given the pid, the same step would have
  added it.
\<close>

theorem memcached_pid_line_ignored:
  "get_stats pyfloat
     (every_host (answering [''STAT pid 1234'' @ [CR, NL] @ ''STAT curr_items 5'' @ [CR, NL]
                          @ ''END'' @ [CR, NL]]))
     (fs_of [(''/proc/1234/cmdline'',
              RegularFile True (''memcached'' @ [NUL] @ ''-c'' @ [NUL] @ ''2048'' @ [NUL]))])
     ''localhost'' (Some ''11211'')
   = ([(DEBUG, ''pid None''), (DEBUG, ''Cannot parse command line options for memcached'')],
      Inr [(''curr_items'', IntV 5)])
   \<and> read_maxconn
       (fs_of [(''/proc/1234/cmdline'',
                RegularFile True (''memcached'' @ [NUL] @ ''-c'' @ [NUL] @ ''2048'' @ [NUL]))])
       (Some ''1234'') [(''curr_items'', IntV 5)]
   = ([(''curr_items'', IntV 5), (''limit_maxconn'', StrV ''2048'')],
      [(DEBUG, ''limit connections 2048'')])"
  by (simp add: pid_eval)

lemmas gauge_eval =
  memcached_collect_def get_stats_def get_raw_stats_def exchange_def answering_def every_host_def endswith_def NL_def CR_def
  py_splitlines_def read_maxconn_def pid_text_def ignored_def MEMCACHED_GAUGES_def
  host_match_def alias_splits_def host_part_def port_part_def py_open_def fs_of_def
  py_int_def py_strip_def is_space_def parse_signed_def parse_digits_def is_digit_def
  digits_val_def digit_val_def

text \<open>
  Claim C6, as stated: with no publish-list the response
  \<open>"STAT curr_items 5\r\nSTAT uptime 10\r\nEND\r\n"\<close> has \<open>curr_items\<close> published as a
  counter.  \<open>curr_items\<close> is a member of \<open>GAUGES\<close>, so it is published as a gauge and no
  counter of that name is published.
\<close>

theorem memcached_example_counterexample:
  "PublishCounter ''app-1.curr_items'' (IntV 5)
     \<notin> set (published (memcached_collect float_of_int_literal
          \<lparr>hosts = HostString ''app-1@localhost:11212'', publish = None\<rparr>
          (every_host (answering [''STAT curr_items 5'' @ [CR, NL] @ ''STAT uptime 10'' @ [CR, NL]
                               @ ''END'' @ [CR, NL]]))
          (fs_of [])))
   \<and> set (published (memcached_collect float_of_int_literal
          \<lparr>hosts = HostString ''app-1@localhost:11212'', publish = None\<rparr>
          (every_host (answering [''STAT curr_items 5'' @ [CR, NL] @ ''STAT uptime 10'' @ [CR, NL]
                               @ ''END'' @ [CR, NL]]))
          (fs_of [])))
     = {PublishGauge ''app-1.curr_items'' (IntV 5), PublishGauge ''app-1.uptime'' (IntV 10)}"
  by (simp add: gauge_eval)

lemma example_parse:
  "parse_stats pyfloat
     (py_splitlines (''STAT curr_items 5'' @ [CR, NL] @ ''STAT uptime 10'' @ [CR, NL]
                       @ ''END'' @ [CR, NL])) None []
   = Inr (None, [(''curr_items'', IntV 5), (''uptime'', IntV 10)])"
  by (simp add: gauge_eval)

lemma example_read_maxconn:
  "fst (read_maxconn fs None [(''curr_items'', IntV 5), (''uptime'', IntV 10)])
     = [(''curr_items'', IntV 5), (''uptime'', IntV 10)]
   \<or> (\<exists>n. fst (read_maxconn fs None [(''curr_items'', IntV 5), (''uptime'', IntV 10)])
     = [(''curr_items'', IntV 5), (''uptime'', IntV 10), (''limit_maxconn'', StrV n)])"
  by (simp add: read_maxconn_def split: sum.splits option.splits)

lemma example_publish:
  assumes "stats = [(''curr_items'', IntV 5), (''uptime'', IntV 10)]
           \<or> (\<exists>n. stats = [(''curr_items'', IntV 5), (''uptime'', IntV 10),
                              (''limit_maxconn'', StrV n)])"
  shows "PublishGauge (a @ ''.curr_items'') (IntV 5)
           \<in> set (fst (publish_stats a stats (map fst stats)))
         \<and> PublishGauge (a @ ''.uptime'') (IntV 10)
           \<in> set (fst (publish_stats a stats (map fst stats)))"
  using assms by (auto simp: MEMCACHED_GAUGES_def split: prod.splits)

text \<open>
  Claim C6, amended: for a host spec that the pattern splits into alias, host name and
  port, with no publish-list, the response
  \<open>"STAT curr_items 5\r\nSTAT uptime 10\r\nEND\r\n"\<close> has \<open>{alias}.curr_items\<close> published
  with value 5 as a gauge and \<open>{alias}.uptime\<close> published with value 10 as a gauge; the
  alias is the host name when the spec gives none.
\<close>

theorem memcached_example_gauges:
  assumes "host_search h = Some (alias, hostname, port)"
    and "raw_raised (get_raw_stats net hostname port) = None"
    and "raw_data (get_raw_stats net hostname port)
           = ''STAT curr_items 5'' @ [CR, NL] @ ''STAT uptime 10'' @ [CR, NL] @ ''END'' @ [CR, NL]"
  shows "PublishGauge ((case alias of None \<Rightarrow> hostname | Some a \<Rightarrow> a) @ ''.curr_items'') (IntV 5)
           \<in> set (published (memcached_collect pyfloat
                  \<lparr>hosts = HostString h, publish = None\<rparr> net fs))
         \<and> PublishGauge ((case alias of None \<Rightarrow> hostname | Some a \<Rightarrow> a) @ ''.uptime'') (IntV 10)
           \<in> set (published (memcached_collect pyfloat
                  \<lparr>hosts = HostString h, publish = None\<rparr> net fs))"
proof -
  let ?base = "[(''curr_items'', IntV 5), (''uptime'', IntV 10)]"
  let ?a = "case alias of None \<Rightarrow> hostname | Some a \<Rightarrow> a"
  obtain stats lg where rm: "read_maxconn fs None ?base = (stats, lg)"
    by (cases "read_maxconn fs None ?base")
  with example_read_maxconn [of fs]
  have shape: "stats = ?base \<or> (\<exists>n. stats = ?base @ [(''limit_maxconn'', StrV n)])" by simp
  obtain evs lg' where pb: "publish_stats ?a stats (map fst stats) = (evs, lg')"
    by (cases "publish_stats ?a stats (map fst stats)")
  from example_publish [of stats ?a] shape pb
  have evs: "PublishGauge (?a @ ''.curr_items'') (IntV 5) \<in> set evs
             \<and> PublishGauge (?a @ ''.uptime'') (IntV 10) \<in> set evs" by simp
  have gs: "get_stats pyfloat net fs hostname port
              = (raw_logged (get_raw_stats net hostname port) @ [(DEBUG, ''pid None'')] @ lg,
                 Inr stats)"
    using assms(2,3) example_parse [of pyfloat] rm
    by (simp add: get_stats_def Let_def pid_text_def)
  have "published (memcached_collect pyfloat \<lparr>hosts = HostString h, publish = None\<rparr> net fs) = evs"
    using assms(1) gs pb by (simp add: memcached_collect_def)
  with evs show ?thesis by simp
qed

theorem memcached_example_gauges_witness:
  "PublishGauge ''app-1.curr_items'' (IntV 5)
     \<in> set (published (memcached_collect float_of_int_literal
          \<lparr>hosts = HostString ''app-1@localhost:11212'', publish = None\<rparr>
          (every_host (answering [''STAT curr_items 5'' @ [CR, NL] @ ''STAT uptime 10'' @ [CR, NL]
                               @ ''END'' @ [CR, NL]]))
          (fs_of [])))
   \<and> PublishGauge ''app-1.uptime'' (IntV 10)
     \<in> set (published (memcached_collect float_of_int_literal
          \<lparr>hosts = HostString ''app-1@localhost:11212'', publish = None\<rparr>
          (every_host (answering [''STAT curr_items 5'' @ [CR, NL] @ ''STAT uptime 10'' @ [CR, NL]
                               @ ''END'' @ [CR, NL]]))
          (fs_of [])))"
proof -
  let ?net = "every_host (answering [''STAT curr_items 5'' @ [CR, NL]
                             @ ''STAT uptime 10'' @ [CR, NL] @ ''END'' @ [CR, NL]])"
  have a: "host_search ''app-1@localhost:11212'' = Some (Some ''app-1'', ''localhost'', Some ''11212'')"
    by (simp add: gauge_eval)
  have b: "raw_raised (get_raw_stats ?net ''localhost'' (Some ''11212'')) = None"
    by (simp add: gauge_eval)
  have c: "raw_data (get_raw_stats ?net ''localhost'' (Some ''11212''))
             = ''STAT curr_items 5'' @ [CR, NL] @ ''STAT uptime 10'' @ [CR, NL] @ ''END'' @ [CR, NL]"
    by (simp add: gauge_eval)
  from memcached_example_gauges [OF a b c, of float_of_int_literal "fs_of []"]
  show ?thesis by simp
qed

lemma tsb_True: "timeout_set_before P True xs"
  by (induction xs) auto

lemma tsb_append:
  "timeout_set_before P a (xs @ ys) =
     (timeout_set_before P a xs \<and> timeout_set_before P (a \<or> (\<exists>x \<in> set xs. is_settimeout x)) ys)"
  by (induction xs arbitrary: a) auto

lemma recv_loop_trace: "op \<in> set (fst (snd (recv_loop es d))) \<Longrightarrow> op = Recv 4096"
  by (induction es d rule: recv_loop.induct) (auto split: if_splits prod.splits)

lemma exchange_shape:
  "\<exists>rest. raw_trace (exchange p failure opened)
            = opened @ [SetTimeout 3, Send (''stats'' @ [NL])] @ rest
          \<and> (\<forall>op \<in> set rest. op = Recv 4096 \<or> op = Close)"
proof (cases "send_fails p")
  case True
  then show ?thesis by (simp add: exchange_def)
next
  case False
  obtain d t failed where r: "recv_loop (recv_script p) [] = (d, t, failed)"
    by (cases "recv_loop (recv_script p) []") auto
  with recv_loop_trace [of _ "recv_script p" "[]"] have "\<forall>op \<in> set t. op = Recv 4096" by simp
  with False r show ?thesis by (simp add: exchange_def)
qed

lemma exchange_timeout:
  assumes "opened = [SocketCreate fam, Connect host pn]"
  shows "timeout_set_before is_transfer False (raw_trace (exchange p failure opened))
         \<and> (\<forall>op \<in> set (raw_trace (exchange p failure opened)).
               is_settimeout op \<longrightarrow> op = SetTimeout 3)
         \<and> \<not> timeout_set_before is_connect False (raw_trace (exchange p failure opened))"
proof -
  from exchange_shape [of p failure opened] obtain rest where
    t: "raw_trace (exchange p failure opened) = opened @ [SetTimeout 3, Send (''stats'' @ [NL])] @ rest"
    and r: "\<forall>op \<in> set rest. op = Recv 4096 \<or> op = Close" by blast
  from r have "\<forall>op \<in> set rest. is_settimeout op \<longrightarrow> op = SetTimeout 3" by auto
  with t assms show ?thesis by (simp add: tsb_True)
qed

lemmas timeout_eval =
  get_raw_stats_def exchange_def answering_def every_host_def endswith_def NL_def CR_def
  py_int_def py_strip_def is_space_def parse_signed_def parse_digits_def is_digit_def
  digits_val_def digit_val_def

text \<open>
  Claim C7, as stated: the timeout is applied to the socket before the connect.  In
  \<open>get_raw_stats\<close> the call \<open>sock.connect\<close> comes first and \<open>sock.settimeout(3)\<close> after it.
\<close>

theorem memcached_timeout_counterexample:
  "\<not> timeout_set_before is_connect False
       (raw_trace (get_raw_stats (every_host (answering [''END'' @ [CR, NL]]))
          ''localhost'' (Some ''11211'')))
   \<and> raw_trace (get_raw_stats (every_host (answering [''END'' @ [CR, NL]]))
          ''localhost'' (Some ''11211''))
     = [SocketCreate AF_INET, Connect ''localhost'' (Some 11211), SetTimeout 3,
        Send (''stats'' @ [NL]), Recv 4096, Close]"
  by (simp add: timeout_eval)

text \<open>
  Claim C7, amended: for every host spec and every behaviour of the peer,
  \<open>get_raw_stats\<close> sets the fixed timeout of 3 seconds on the socket after the connect has
  returned and before the send and every read; a connect, whenever one is made, is made
  before any timeout is set.
\<close>

theorem memcached_timeout_after_connect:
  "timeout_set_before is_transfer False (raw_trace (get_raw_stats net host port))
   \<and> (\<forall>op \<in> set (raw_trace (get_raw_stats net host port)).
         is_settimeout op \<longrightarrow> op = SetTimeout 3)
   \<and> ((\<exists>op \<in> set (raw_trace (get_raw_stats net host port)). is_connect op)
        \<longrightarrow> \<not> timeout_set_before is_connect False (raw_trace (get_raw_stats net host port)))"
proof (cases port)
  case None
  with exchange_timeout [of "[SocketCreate AF_UNIX, Connect host None]" AF_UNIX host None "net host None"]
  show ?thesis by (simp add: get_raw_stats_def Let_def)
next
  case (Some q)
  show ?thesis
  proof (cases "py_int q")
    case None
    with Some show ?thesis by (simp add: get_raw_stats_def Let_def)
  next
    case pn: (Some pn)
    with Some
      exchange_timeout [of "[SocketCreate AF_INET, Connect host (Some pn)]" AF_INET host "Some pn"
                           "net host (Some q)"]
    show ?thesis by (simp add: get_raw_stats_def Let_def)
  qed
qed

theorem memcached_timeout_after_connect_witness:
  "Send (''stats'' @ [NL])
     \<in> set (raw_trace (get_raw_stats (every_host (answering [''END'' @ [CR, NL]]))
              ''localhost'' (Some ''11211'')))
   \<and> Connect ''localhost'' (Some 11211)
     \<in> set (raw_trace (get_raw_stats (every_host (answering [''END'' @ [CR, NL]]))
              ''localhost'' (Some ''11211'')))
   \<and> timeout_set_before is_transfer False
       (raw_trace (get_raw_stats (every_host (answering [''END'' @ [CR, NL]]))
          ''localhost'' (Some ''11211'')))
   \<and> \<not> timeout_set_before is_connect False
       (raw_trace (get_raw_stats (every_host (answering [''END'' @ [CR, NL]]))
          ''localhost'' (Some ''11211'')))"
proof -
  define t where "t = raw_trace (get_raw_stats (every_host (answering [''END'' @ [CR, NL]]))
              ''localhost'' (Some ''11211''))"
  have a: "Send (''stats'' @ [NL]) \<in> set t" by (simp add: t_def timeout_eval)
  have b: "Connect ''localhost'' (Some 11211) \<in> set t" by (simp add: t_def timeout_eval)
  have "is_connect (Connect ''localhost'' (Some 11211))" by simp
  with b have c: "\<exists>op \<in> set t. is_connect op" by (rule rev_bexI)
  have d: "timeout_set_before is_transfer False t
           \<and> ((\<exists>op \<in> set t. is_connect op) \<longrightarrow> \<not> timeout_set_before is_connect False t)"
    unfolding t_def
    using memcached_timeout_after_connect
            [of "every_host (answering [''END'' @ [CR, NL]])" "''localhost''" "Some ''11211''"]
    by (elim conjE) (rule conjI)
  from a b c d show ?thesis unfolding t_def [symmetric] by (elim conjE) (intro conjI, simp_all)
qed


section \<open>Properties of the Mesos cgroup collector\<close>

text \<open>
  Claim C2 on the code.  When the fetch raises \<open>HTTPError\<close> or the body does not decode,
  \<open>get_mesos_state\<close> logs the error and returns \<open>{}\<close>; \<open>get_containers\<close> then evaluates
  \<open>state['flags']\<close> on the empty \<open>dict\<close>, so \<open>collect\<close> publishes nothing and ends with a
  \<open>KeyError\<close>.  A fetch that fails with another \<open>URLError\<close> is not caught at all.
\<close>

theorem mesos_fetch_failure_raises:
  "mesos_collect cfg (every_url (HTTPError err)) fs =
     \<lparr>published = [], logged = [(ERROR, ''Unable to read JSON response: '' @ err)],
      raised = Some KeyError\<rparr>
   \<and> mesos_collect cfg (every_url (NotJSON err)) fs =
     \<lparr>published = [], logged = [(ERROR, ''Unable to read JSON response: '' @ err)],
      raised = Some KeyError\<rparr>
   \<and> mesos_collect cfg (every_url OtherURLError) fs =
     \<lparr>published = [], logged = [], raised = Some URLError\<rparr>"
  by (simp add: mesos_collect_def get_containers_def get_mesos_state_def py_getitem_def
        every_url_def)

lemma clean_up_no_slash: "CHR ''/'' \<notin> set (clean_up s)"
  by (auto simp: clean_up_def)

lemma for_each_mem:
  "ev \<in> set (fst (for_each body xs)) \<Longrightarrow> \<exists>x \<in> set xs. ev \<in> set (fst (body x))"
proof (induction xs)
  case Nil
  then show ?case by simp
next
  case (Cons x xs)
  obtain evs r where b: "body x = (evs, r)" by (cases "body x")
  show ?case
  proof (cases r)
    case (Some e)
    with b Cons.prems show ?thesis by simp
  next
    case None
    obtain evs' r' where f: "for_each body xs = (evs', r')" by (cases "for_each body xs")
    with b None Cons.prems have "ev \<in> set evs \<or> ev \<in> set evs'" by simp
    then show ?thesis
    proof
      assume "ev \<in> set evs"
      with b show ?thesis by simp
    next
      assume "ev \<in> set evs'"
      with f Cons.IH show ?thesis by simp
    qed
  qed
qed

lemma publish_kv_clean:
  "ev \<in> set (fst (publish_kv key_parts kv_pair)) \<Longrightarrow> CHR ''/'' \<notin> set (metric_name ev)"
  by (auto simp: publish_kv_def clean_up_no_slash split: list.splits sum.splits)

lemma publish_usage_clean:
  "ev \<in> set (fst (publish_usage fs key_parts task_dir aspect)) \<Longrightarrow> CHR ''/'' \<notin> set (metric_name ev)"
  by (auto simp: publish_usage_def clean_up_no_slash split: sum.splits)

lemma stat_lines_clean:
  "ev \<in> set (fst (for_each (publish_kv key_parts) ls)) \<Longrightarrow> CHR ''/'' \<notin> set (metric_name ev)"
  using for_each_mem [of ev "publish_kv key_parts" ls] publish_kv_clean [of ev key_parts]
  by blast

lemma collect_task_clean:
  assumes "ev \<in> set (fst (collect_task fs containers aspect aspect_path task_id))"
  shows "CHR ''/'' \<notin> set (metric_name ev)"
proof (cases "map_of containers task_id")
  case None
  with assms show ?thesis by (simp add: collect_task_def)
next
  case (Some entry)
  show ?thesis
  proof (cases "key_parts_of entry aspect")
    case (Inl e)
    with Some assms show ?thesis by (simp add: collect_task_def)
  next
    case (Inr key_parts)
    let ?dir = "os_path_join aspect_path task_id"
    let ?u = "if aspect = ''cpuacct'' then publish_usage fs key_parts ?dir aspect else ([], None)"
    obtain evs r where u: "?u = (evs, r)" by (cases ?u)
    have evs: "\<And>x. x \<in> set evs \<Longrightarrow> CHR ''/'' \<notin> set (metric_name x)"
    proof -
      fix x assume "x \<in> set evs"
      with u have "x \<in> set (fst ?u)" by simp
      then show "CHR ''/'' \<notin> set (metric_name x)"
        using publish_usage_clean [of x fs key_parts ?dir aspect] by (simp split: if_splits)
    qed
    show ?thesis
    proof (cases r)
      case (Some e)
      with \<open>map_of containers task_id = Some entry\<close> Inr u assms have "ev \<in> set evs"
        by (simp add: collect_task_def)
      with evs show ?thesis by simp
    next
      case None
      show ?thesis
      proof (cases "py_open fs (os_path_join ?dir (aspect @ ''.stat''))")
        case (Inl e)
        with \<open>map_of containers task_id = Some entry\<close> Inr u None assms have "ev \<in> set evs"
          by (simp add: collect_task_def)
        with evs show ?thesis by simp
      next
        case f: (Inr f)
        obtain evs' r' where k: "for_each (publish_kv key_parts) (readlines f) = (evs', r')"
          by (cases "for_each (publish_kv key_parts) (readlines f)")
        with \<open>map_of containers task_id = Some entry\<close> Inr u None f assms
        have "ev \<in> set evs \<or> ev \<in> set evs'"
          by (simp add: collect_task_def)
        then show ?thesis
        proof
          assume "ev \<in> set evs"
          with evs show ?thesis by simp
        next
          assume "ev \<in> set evs'"
          with k have "ev \<in> set (fst (for_each (publish_kv key_parts) (readlines f)))" by simp
          then show ?thesis by (rule stat_lines_clean)
        qed
      qed
    qed
  qed
qed

lemma collect_aspect_clean:
  assumes "ev \<in> set (fst (collect_aspect fs containers sysfs cgroup_root aspect))"
  shows "CHR ''/'' \<notin> set (metric_name ev)"
proof (cases "os_listdir fs (os_path_join (os_path_join sysfs aspect) cgroup_root)")
  case (Inl e)
  with assms show ?thesis by (simp add: collect_aspect_def)
next
  case (Inr contents)
  let ?p = "os_path_join (os_path_join sysfs aspect) cgroup_root"
  let ?ds = "filter (\<lambda>entry. os_path_isdir fs (os_path_join ?p entry)) contents"
  from Inr assms have "ev \<in> set (fst (for_each (collect_task fs containers aspect ?p) ?ds))"
    by (simp add: collect_aspect_def)
  from for_each_mem [OF this] obtain t where
    "ev \<in> set (fst (collect_task fs containers aspect ?p t))" by blast
  then show ?thesis by (rule collect_task_clean)
qed

text \<open>
  Claim C9.  Every metric name that the Mesos cgroup collector passes to \<open>publish\<close> is a
  result of \<open>clean_up\<close>, which replaces every slash by a dot: no published name contains
  a slash.
\<close>

theorem mesos_names_have_no_slash:
  "\<forall>ev \<in> set (published (mesos_collect cfg http fs)). CHR ''/'' \<notin> set (metric_name ev)"
proof
  fix ev assume a: "ev \<in> set (published (mesos_collect cfg http fs))"
  have "\<exists>containers s c. ev \<in> set (fst (for_each (collect_aspect fs containers s c) ASPECTS))"
    using a unfolding mesos_collect_def
    by (auto split: prod.splits sum.splits option.splits json.splits) (metis fst_conv)
  then obtain containers s c where
    "ev \<in> set (fst (for_each (collect_aspect fs containers s c) ASPECTS))" by blast
  from for_each_mem [OF this] obtain aspect where
    "ev \<in> set (fst (collect_aspect fs containers s c aspect))" by blast
  then show "CHR ''/'' \<notin> set (metric_name ev)" by (rule collect_aspect_clean)
qed

lemmas mesos_eval =
  every_url_def mesos_collect_def get_containers_def get_mesos_state_def py_getitem_def py_has_key_def
  py_iter_def example_state_def example_cgroups_def fs_of_def collect_aspect_def
  collect_task_def key_parts_of_def publish_usage_def publish_kv_def dot_join_def
  clean_up_def ASPECTS_def os_listdir_def os_path_isdir_def os_path_join_def py_open_def
  startswith_def endswith_def readline_def readlines_def READ_LIMIT_def NL_def py_split_def
  is_space_def

theorem mesos_names_have_no_slash_witness:
  "Publish ''prod.x.www.data.hello.0.cpuacct.user'' ''1''
     \<in> set (published (mesos_collect
          \<lparr>mesos_host = ''localhost'', mesos_port = ''5051'', mesos_state_path = ''state.json''\<rparr>
          (every_url (Decoded example_state)) example_cgroups))
   \<and> CHR ''/'' \<notin> set ''prod.x.www.data.hello.0.cpuacct.user''"
proof -
  define r where "r = mesos_collect
          \<lparr>mesos_host = ''localhost'', mesos_port = ''5051'', mesos_state_path = ''state.json''\<rparr>
          (every_url (Decoded example_state)) example_cgroups"
  have a: "Publish ''prod.x.www.data.hello.0.cpuacct.user'' ''1'' \<in> set (published r)"
    by (simp add: r_def mesos_eval)
  have "\<forall>ev \<in> set (published r). CHR ''/'' \<notin> set (metric_name ev)"
    unfolding r_def by (rule mesos_names_have_no_slash)
  from this a
  have "CHR ''/'' \<notin> set (metric_name (Publish ''prod.x.www.data.hello.0.cpuacct.user'' ''1''))"
    by (rule bspec)
  with a show ?thesis unfolding r_def by simp
qed


end
